theory Spec2Isabelle
  imports Main "HOL-Library.Word"
begin

section \<open>Time, durations and protobuf timestamps\<close>

text \<open>
  Go's \<^verbatim>\<open>time.Duration\<close> is an \<^verbatim>\<open>int64\<close> count of nanoseconds: a 64-bit word read
  as two's complement. A \<^verbatim>\<open>time.Time\<close> is an instant, kept here as the number of
  nanoseconds since the Unix epoch; \<^verbatim>\<open>t.Add(d)\<close> moves it by the signed value of \<open>d\<close>,
  \<^verbatim>\<open>t.After(u)\<close> is \<open>u < t\<close>.
\<close>

type_synonym Duration = "64 word"
type_synonym Time = int

definition Nanosecond :: Duration where
  "Nanosecond = 1"

definition Microsecond :: Duration where
  "Microsecond = 1000 * Nanosecond"

definition Millisecond :: Duration where
  "Millisecond = 1000 * Microsecond"

definition Second :: Duration where
  "Second = 1000 * Millisecond"

definition Minute :: Duration where
  "Minute = 60 * Second"

definition Time_Add :: "Time \<Rightarrow> Duration \<Rightarrow> Time" where
  "Time_Add t d = t + sint d"

definition Time_After :: "Time \<Rightarrow> Time \<Rightarrow> bool" where
  "Time_After t u = (u < t)"

text \<open>
  A protobuf timestamp (seconds and nanoseconds). \<^verbatim>\<open>ptypes.Timestamp\<close> fails on a nil
  pointer, on seconds outside the years 1 to 9999 and on nanoseconds outside
  \<open>[0, 10^9)\<close>; otherwise it is the instant.
\<close>

record pb_Timestamp =
  Seconds :: int
  Nanos :: int

definition minValidSeconds :: int where
  "minValidSeconds = - 62135596800"

definition maxValidSeconds :: int where
  "maxValidSeconds = 253402300800"

definition ptypes_Timestamp :: "pb_Timestamp option \<Rightarrow> string + Time" where
  "ptypes_Timestamp ts =
     (case ts of
        None \<Rightarrow> Inl ''timestamp: nil Timestamp''
      | Some t \<Rightarrow>
          if Seconds t < minValidSeconds then Inl ''timestamp: before 0001-01-01''
          else if maxValidSeconds \<le> Seconds t then Inl ''timestamp: after 10000-01-01''
          else if Nanos t < 0 \<or> 1000000000 \<le> Nanos t then Inl ''timestamp: nanos not in range [0, 1e9)''
          else Inr (Seconds t * 1000000000 + Nanos t))"

section \<open>Outcomes of a call that may panic\<close>

datatype 'a outcome = Panicked | Returned 'a

section \<open>Typed values\<close>

text \<open>
  Modelled from the spec: the package \<^verbatim>\<open>typedvalues\<close> is not among the sources. The
  spec lists primitives, maps and an expression value; expressions are paths into the
  scope, as in the spec's \<^verbatim>\<open>$.Tasks[id].Output\<close>, here with the fields selected from
  the value they reach. Values are kept in their decoded form, so unwrapping a typed
  value is the identity on it.
\<close>

datatype expr =
    ExprTaskOutput string "string list"
  | ExprTaskOutputHeaders string "string list"

datatype TypedValue =
    TVString string
  | TVMap "(string \<times> TypedValue) list"
  | TVExpression expr



section \<open>The Fission function runtime\<close>

record FnRef =
  fn_Runtime :: string
  fn_Namespace :: string
  fn_ID :: string

record ObjectMeta =
  om_Name :: string
  om_Namespace :: string

definition NamespaceDefault :: string where
  "NamespaceDefault = ''default''"

definition defaultHTTPMethod :: string where
  "defaultHTTPMethod = ''POST''"

definition defaultProtocol :: string where
  "defaultProtocol = ''http''"

text \<open>
  \<^verbatim>\<open>provisionDuration = time.Duration(500) - time.Millisecond\<close>: a constant of type
  \<^verbatim>\<open>Duration\<close>, the difference of 500 nanoseconds and one millisecond.
\<close>

definition provisionDuration :: Duration where
  "provisionDuration = 500 - Millisecond"

text \<open>
  The timed execution pool is not among the sources; \<^verbatim>\<open>Submit(fn, execAt)\<close> is kept as
  the list of what was submitted: the closure (it taps the function's service URL) and
  the instant it is to run at.
\<close>

datatype TimedExec = TapService string

type_synonym timedExecPool = "(TimedExec \<times> Time) list"

definition timedExec_Submit :: "timedExecPool \<Rightarrow> TimedExec \<Rightarrow> Time \<Rightarrow> timedExecPool" where
  "timedExec_Submit pool f execAt = pool @ [(f, execAt)]"

text \<open>
  The clients the runtime calls (the Fission executor, the URL parser, the HTTP client and
  the converters of \<^verbatim>\<open>httpconv\<close> and \<^verbatim>\<open>validate\<close>) are parameters.
\<close>

record Request =
  req_Method :: string
  req_URL :: string
  req_Inputs :: "string \<rightharpoonup> TypedValue"

record Response =
  StatusCode :: int
  resp_Body :: string

datatype TaskInvocationStatus_Status =
    TaskInvocationStatus_UNKNOWN
  | TaskInvocationStatus_SCHEDULED
  | TaskInvocationStatus_IN_PROGRESS
  | TaskInvocationStatus_SUCCEEDED
  | TaskInvocationStatus_FAILED
  | TaskInvocationStatus_ABORTED

record Error =
  Message :: string

record TaskInvocationStatus =
  tis_Status :: TaskInvocationStatus_Status
  tis_Output :: "TypedValue option"
  tis_OutputHeaders :: "TypedValue option"
  tis_Error :: "Error option"

record TaskStatus =
  ts_FnRef :: "FnRef option"

record TaskSpec =
  tsp_FunctionRef :: string
  tsp_Inputs :: "(string \<times> TypedValue) list"
  tsp_Output :: "TypedValue option"
  tsp_OutputHeaders :: "TypedValue option"

record Task =
  task_Id :: string
  task_Spec :: TaskSpec
  task_Status :: TaskStatus

record TaskInvocationSpec =
  tispec_Task :: "Task option"
  tispec_Inputs :: "string \<rightharpoonup> TypedValue"
  tispec_Deadline :: "pb_Timestamp option"
  tispec_InvocationId :: string

record Clients =
  GetServiceForFunction :: "ObjectMeta \<Rightarrow> string + string"
  url_Parse :: "string \<Rightarrow> string + string"
  validate_TaskInvocationSpec :: "TaskInvocationSpec \<Rightarrow> string option"
  http_NewRequest :: "string \<Rightarrow> string \<Rightarrow> string + Request"
  FormatRequest :: "(string \<rightharpoonup> TypedValue) \<Rightarrow> Request \<Rightarrow> string + Request"
  client_Do :: "Request \<Rightarrow> string + Response"
  ParseResponse :: "Response \<Rightarrow> string + TypedValue"
  ParseResponseHeaders :: "Response \<Rightarrow> TypedValue option"
  Sprint_Unwrap :: "TypedValue \<Rightarrow> string"

record FunctionEnv =
  routerURL :: string
  timedExecService :: timedExecPool

definition createFunctionMeta :: "FnRef \<Rightarrow> ObjectMeta" where
  "createFunctionMeta fn = \<lparr>om_Name = fn_ID fn, om_Namespace = NamespaceDefault\<rparr>"

definition getFnURL :: "Clients \<Rightarrow> FnRef \<Rightarrow> (string + string) outcome" where
  "getFnURL cl fn =
     (let meta = createFunctionMeta fn in
      case GetServiceForFunction cl meta of
        Inl err \<Rightarrow> Returned (Inl err)
      | Inr serviceURL \<Rightarrow>
          (let rawURL = defaultProtocol @ ''://'' @ serviceURL in
           case url_Parse cl rawURL of
             Inl err \<Rightarrow> Panicked
           | Inr reqURL \<Rightarrow> Returned (Inr reqURL)))"

text \<open>
  \<^verbatim>\<open>Notify\<close> returns the error (nil is \<open>None\<close>) and leaves the pool with the tap it
  has scheduled.
\<close>

definition Notify :: "Clients \<Rightarrow> FunctionEnv \<Rightarrow> FnRef \<Rightarrow> Time \<Rightarrow> (string option \<times> FunctionEnv) outcome" where
  "Notify cl fe fn expectedAt =
     (case getFnURL cl fn of
        Panicked \<Rightarrow> Panicked
      | Returned (Inl err) \<Rightarrow> Returned (Some err, fe)
      | Returned (Inr reqURL) \<Rightarrow>
          (let execAt = Time_Add expectedAt (- provisionDuration) in
           Returned (None,
             fe\<lparr>timedExecService := timedExec_Submit (timedExecService fe) (TapService reqURL) execAt\<rparr>)))"

text \<open>\<^verbatim>\<open>strings.TrimLeft\<close>, \<^verbatim>\<open>TrimRight\<close> and \<^verbatim>\<open>Trim\<close> with the cutset \<^verbatim>\<open>"/"\<close>.\<close>

definition TrimLeft_slash :: "string \<Rightarrow> string" where
  "TrimLeft_slash s = dropWhile (\<lambda>ch. ch = CHR ''/'') s"

definition TrimRight_slash :: "string \<Rightarrow> string" where
  "TrimRight_slash s = rev (dropWhile (\<lambda>ch. ch = CHR ''/'') (rev s))"

definition Trim_slash :: "string \<Rightarrow> string" where
  "Trim_slash s = TrimRight_slash (TrimLeft_slash s)"

definition createRouterURL :: "FunctionEnv \<Rightarrow> FnRef \<Rightarrow> string" where
  "createRouterURL fe fn =
     (let ident = TrimLeft_slash (fn_ID fn);
          baseUrl = TrimRight_slash (routerURL fe);
          ns = (if fn_Namespace fn \<noteq> NamespaceDefault \<and> length (fn_Namespace fn) \<noteq> 0
                then Trim_slash (fn_Namespace fn) @ ''/'' else '''')
      in baseUrl @ ''/fission-function/'' @ ns @ ident)"

text \<open>
  \<^verbatim>\<open>Invoke\<close>: the function reference is read first (a nil one panics), the spec is
  validated, the request is built (a failure of \<^verbatim>\<open>http.NewRequest\<close> panics), the inputs
  are mapped onto it, it is sent, and the response is parsed. Tracing, metrics and logging
  are left out. The result is the engine error (\<open>Inl\<close>) or the status (\<open>Inr\<close>).
\<close>

definition Invoke :: "Clients \<Rightarrow> FunctionEnv \<Rightarrow> TaskInvocationSpec \<Rightarrow> (string + TaskInvocationStatus) outcome" where
  "Invoke cl fe spec =
     (case (case tispec_Task spec of None \<Rightarrow> None | Some t \<Rightarrow> ts_FnRef (task_Status t)) of
        None \<Rightarrow> Panicked
      | Some fnRef \<Rightarrow>
         (case validate_TaskInvocationSpec cl spec of
            Some err \<Rightarrow> Returned (Inl err)
          | None \<Rightarrow>
             (let fnUrl = createRouterURL fe fnRef in
              case http_NewRequest cl defaultHTTPMethod fnUrl of
                Inl err \<Rightarrow> Panicked
              | Inr req0 \<Rightarrow>
                 (case FormatRequest cl (tispec_Inputs spec) req0 of
                    Inl err \<Rightarrow> Returned (Inl err)
                  | Inr req \<Rightarrow>
                     (case client_Do cl req of
                        Inl err \<Rightarrow> Returned (Inl (''error for reqUrl '' @ [CHR 0x27] @ fnUrl @ [CHR 0x27] @ '': '' @ err))
                      | Inr resp \<Rightarrow>
                         (case ParseResponse cl resp of
                            Inl err \<Rightarrow> Returned (Inl (''failed to parse output: '' @ err))
                          | Inr output \<Rightarrow>
                             (let outHeaders = ParseResponseHeaders cl resp in
                              if 400 \<le> StatusCode resp then
                                (let msg = Sprint_Unwrap cl output in
                                 Returned (Inr \<lparr>tis_Status = TaskInvocationStatus_FAILED,
                                   tis_Output = None, tis_OutputHeaders = None,
                                   tis_Error = Some \<lparr>Message = ''fission function error: '' @ msg\<rparr>\<rparr>))
                              else
                                Returned (Inr \<lparr>tis_Status = TaskInvocationStatus_SUCCEEDED,
                                  tis_Output = Some output, tis_OutputHeaders = outHeaders,
                                  tis_Error = None\<rparr>))))))))"

section \<open>Workflows and invocations\<close>

text \<open>
  Modelled from the spec: the package \<^verbatim>\<open>types\<close> is not among the sources. A workflow is
  an ordered map from task id to task spec with an optional output task; an invocation
  holds its id and creation time, its spec (the embedded workflow, the deadline, the
  parent's id) and its status with the task invocations by task id. A status is finished
  when it is \<^verbatim>\<open>SUCCEEDED\<close>, \<^verbatim>\<open>FAILED\<close> or \<^verbatim>\<open>ABORTED\<close>, successful when it is
  \<^verbatim>\<open>SUCCEEDED\<close>. The getters of the generated protobuf code accept nil; a task
  invocation that is missing counts as neither finished nor successful.
\<close>

record WorkflowSpec =
  wfs_Tasks :: "(string \<times> TaskSpec) list"
  wfs_OutputTask :: string

record Workflow =
  wf_Id :: string
  wf_Spec :: WorkflowSpec
  wf_TaskStatus :: "string \<rightharpoonup> TaskStatus"

datatype WorkflowInvocationStatus_Status =
    WorkflowInvocationStatus_UNKNOWN
  | WorkflowInvocationStatus_SCHEDULED
  | WorkflowInvocationStatus_IN_PROGRESS
  | WorkflowInvocationStatus_SUCCEEDED
  | WorkflowInvocationStatus_FAILED
  | WorkflowInvocationStatus_ABORTED

record TaskInvocation =
  ti_Id :: string
  ti_Spec :: TaskInvocationSpec
  ti_Status :: TaskInvocationStatus

record WorkflowInvocationSpec =
  wis_Workflow :: "Workflow option"
  wis_Deadline :: "pb_Timestamp option"
  wis_ParentId :: string

record WorkflowInvocationStatus =
  wist_Status :: WorkflowInvocationStatus_Status
  wist_Tasks :: "string \<rightharpoonup> TaskInvocation"

record WorkflowInvocation =
  wi_Id :: string
  wi_CreatedAt :: "pb_Timestamp option"
  wi_Spec :: WorkflowInvocationSpec
  wi_Status :: WorkflowInvocationStatus

definition ID :: "WorkflowInvocation \<Rightarrow> string" where
  "ID invocation = wi_Id invocation"

definition Workflow_of :: "WorkflowInvocation \<Rightarrow> Workflow option" where
  "Workflow_of invocation = wis_Workflow (wi_Spec invocation)"

fun WorkflowInvocationStatus_Finished :: "WorkflowInvocationStatus_Status \<Rightarrow> bool" where
  "WorkflowInvocationStatus_Finished WorkflowInvocationStatus_SUCCEEDED = True"
| "WorkflowInvocationStatus_Finished WorkflowInvocationStatus_FAILED = True"
| "WorkflowInvocationStatus_Finished WorkflowInvocationStatus_ABORTED = True"
| "WorkflowInvocationStatus_Finished _ = False"

fun WorkflowInvocationStatus_String :: "WorkflowInvocationStatus_Status \<Rightarrow> string" where
  "WorkflowInvocationStatus_String WorkflowInvocationStatus_UNKNOWN = ''UNKNOWN''"
| "WorkflowInvocationStatus_String WorkflowInvocationStatus_SCHEDULED = ''SCHEDULED''"
| "WorkflowInvocationStatus_String WorkflowInvocationStatus_IN_PROGRESS = ''IN_PROGRESS''"
| "WorkflowInvocationStatus_String WorkflowInvocationStatus_SUCCEEDED = ''SUCCEEDED''"
| "WorkflowInvocationStatus_String WorkflowInvocationStatus_FAILED = ''FAILED''"
| "WorkflowInvocationStatus_String WorkflowInvocationStatus_ABORTED = ''ABORTED''"

fun TaskInvocationStatus_Finished :: "TaskInvocationStatus_Status \<Rightarrow> bool" where
  "TaskInvocationStatus_Finished TaskInvocationStatus_SUCCEEDED = True"
| "TaskInvocationStatus_Finished TaskInvocationStatus_FAILED = True"
| "TaskInvocationStatus_Finished TaskInvocationStatus_ABORTED = True"
| "TaskInvocationStatus_Finished _ = False"

definition TaskInvocation_Finished :: "TaskInvocation option \<Rightarrow> bool" where
  "TaskInvocation_Finished task =
     (case task of None \<Rightarrow> False | Some ti \<Rightarrow> TaskInvocationStatus_Finished (tis_Status (ti_Status ti)))"

definition TaskInvocation_Successful :: "TaskInvocation option \<Rightarrow> bool" where
  "TaskInvocation_Successful task =
     (case task of None \<Rightarrow> False | Some ti \<Rightarrow> tis_Status (ti_Status ti) = TaskInvocationStatus_SUCCEEDED)"

text \<open>\<^verbatim>\<open>invocation.Task(id)\<close> and \<^verbatim>\<open>invocation.Tasks()\<close>: the tasks of the embedded workflow.\<close>

definition Workflow_Task :: "Workflow \<Rightarrow> string \<Rightarrow> Task option" where
  "Workflow_Task wfl ident =
     (case map_of (wfs_Tasks (wf_Spec wfl)) ident of
        None \<Rightarrow> None
      | Some spec \<Rightarrow>
          Some \<lparr>task_Id = ident, task_Spec = spec,
                task_Status = (case wf_TaskStatus wfl ident of
                                 None \<Rightarrow> \<lparr>ts_FnRef = None\<rparr> | Some st \<Rightarrow> st)\<rparr>)"

definition Task_of :: "WorkflowInvocation \<Rightarrow> string \<Rightarrow> Task option" where
  "Task_of invocation ident =
     (case Workflow_of invocation of None \<Rightarrow> None | Some wfl \<Rightarrow> Workflow_Task wfl ident)"

definition Tasks :: "WorkflowInvocation \<Rightarrow> string list" where
  "Tasks invocation =
     (case Workflow_of invocation of
        None \<Rightarrow> []
      | Some wfl \<Rightarrow> map fst (wfs_Tasks (wf_Spec wfl)))"

section \<open>The executor and the scheduler\<close>

text \<open>
  What a submitted executor task does when it runs is a closure in the source; here it is
  the call the closure makes, with the values it has captured.
\<close>

record PrepareTaskAction =
  pta_TaskID :: string
  pta_ExpectedAtTime :: "pb_Timestamp option"

record RunTaskAction =
  rta_TaskID :: string

record AbortAction =
  Reason :: string

record Schedule =
  Abort :: "AbortAction option"
  RunTasks :: "RunTaskAction list"
  PrepareTasks :: "PrepareTaskAction list"

datatype Apply =
    InvocationAPI_Fail string string
  | InvocationAPI_Complete string "TypedValue option" "TypedValue option"
  | TaskAPI_Prepare WorkflowInvocation PrepareTaskAction
  | ExecTask WorkflowInvocation string

record ExecutorTask =
  et_TaskID :: string
  et_GroupID :: string
  et_Apply :: Apply

text \<open>
  Modelled from the spec: the executor is not among the sources. \<^verbatim>\<open>Submit(task)\<close>
  returns true if the task is accepted and false if it is rejected. The executor is kept
  as the list of the submissions made to it, each with the answer it got; which
  submissions it accepts is a parameter, a function of that list and the task.
\<close>

type_synonym LocalExecutor = "(ExecutorTask \<times> bool) list"

text \<open>
  Modelled from the spec: the scope of the expression engine holds, for each task, its
  resolved inputs, its output and its output headers.
\<close>

record TaskScope =
  tsc_Inputs :: "string \<rightharpoonup> TypedValue"
  tsc_Output :: "TypedValue option"
  tsc_OutputHeaders :: "TypedValue option"

record Scope =
  sc_Tasks :: "string \<rightharpoonup> TaskScope"

type_synonym Store = "string \<rightharpoonup> Scope"

text \<open>
  The collaborators of the controller that are not among the sources are parameters: the
  executor's admission, the scheduler, the resolution of the output task, the expression
  engine (\<^verbatim>\<open>expr.NewScope\<close>, \<^verbatim>\<open>expr.Resolve\<close>), the ordering of inputs by priority, the
  constructor of task run specs and the task API's \<^verbatim>\<open>Invoke\<close>.
\<close>

record Engine =
  executor_Accepts :: "LocalExecutor \<Rightarrow> ExecutorTask \<Rightarrow> bool"
  scheduler_Evaluate :: "WorkflowInvocation \<Rightarrow> string set \<Rightarrow> string + Schedule"
  ResolveTaskOutput :: "string \<Rightarrow> WorkflowInvocation \<Rightarrow> TypedValue option"
  ResolveTaskOutputHeaders :: "string \<Rightarrow> WorkflowInvocation \<Rightarrow> TypedValue option"
  NewScope :: "Scope option \<Rightarrow> WorkflowInvocation \<Rightarrow> string + Scope"
  Resolve :: "Scope \<Rightarrow> string \<Rightarrow> TypedValue \<Rightarrow> string + TypedValue"
  Prioritize :: "(string \<times> TypedValue) list \<Rightarrow> (string \<times> TypedValue) list"
  NewTaskInvocationSpec :: "WorkflowInvocation \<Rightarrow> Task \<Rightarrow> Time \<Rightarrow> TaskInvocationSpec"
  taskAPI_Invoke :: "TaskInvocationSpec \<Rightarrow> string + TaskInvocation"

definition Submit :: "Engine \<Rightarrow> LocalExecutor \<Rightarrow> ExecutorTask \<Rightarrow> bool \<times> LocalExecutor" where
  "Submit E ex task = (executor_Accepts E ex task, ex @ [(task, executor_Accepts E ex task)])"

section \<open>The invocation controller\<close>

definition DefaultMaxRuntime :: Duration where
  "DefaultMaxRuntime = 10 * Minute"

definition awaitWorkflowMaxRuntime :: Duration where
  "awaitWorkflowMaxRuntime = 10 * Second"

text \<open>
  The controller's own fields; \<^verbatim>\<open>errorCount\<close> is a Go \<^verbatim>\<open>int\<close> that is only compared
  with 0. The executor and the state store are shared objects and are passed beside it.
\<close>

record InvocationController =
  invocationID :: string
  startedTasks :: "string set"
  sheduledTasks :: "string set"
  errorCount :: int

definition NewInvocationController :: "string \<Rightarrow> InvocationController" where
  "NewInvocationController invocationId =
     \<lparr>invocationID = invocationId, startedTasks = {}, sheduledTasks = {}, errorCount = 0\<rparr>"

datatype Entity =
    EntityInvocation WorkflowInvocation
  | EntityWorkflow Workflow
  | EntityNil

fun Entity_TypeName :: "Entity \<Rightarrow> string" where
  "Entity_TypeName (EntityInvocation i) = ''*types.WorkflowInvocation''"
| "Entity_TypeName (EntityWorkflow w) = ''*types.Workflow''"
| "Entity_TypeName EntityNil = ''<nil>''"

record Event =
  Old :: Entity
  Updated :: Entity

datatype Result = Err string | Done string | Success string

text \<open>Decimal digits of a number, as \<^verbatim>\<open>%d\<close> prints it.\<close>

fun Itoa :: "nat \<Rightarrow> string" where
  "Itoa n = (if n < 10 then [''0123456789'' ! n] else Itoa (n div 10) @ [''0123456789'' ! (n mod 10)])"

declare Itoa.simps [simp del]

text \<open>The tasks that \<^verbatim>\<open>Eval\<close> submits.\<close>

definition failTask :: "WorkflowInvocation \<Rightarrow> string \<Rightarrow> ExecutorTask" where
  "failTask invocation err =
     \<lparr>et_TaskID = ID invocation @ ''.fail'', et_GroupID = ID invocation,
      et_Apply = InvocationAPI_Fail (ID invocation) err\<rparr>"

definition successTask :: "WorkflowInvocation \<Rightarrow> TypedValue option \<Rightarrow> TypedValue option \<Rightarrow> ExecutorTask" where
  "successTask invocation output outputHeaders =
     \<lparr>et_TaskID = ID invocation @ ''.success'', et_GroupID = ID invocation,
      et_Apply = InvocationAPI_Complete (ID invocation) output outputHeaders\<rparr>"

definition prewarmTask :: "WorkflowInvocation \<Rightarrow> PrepareTaskAction \<Rightarrow> ExecutorTask" where
  "prewarmTask invocation action =
     \<lparr>et_TaskID = ID invocation @ ''.prewarm.'' @ pta_TaskID action, et_GroupID = ID invocation,
      et_Apply = TaskAPI_Prepare invocation action\<rparr>"

definition runTask :: "WorkflowInvocation \<Rightarrow> string \<Rightarrow> ExecutorTask" where
  "runTask invocation taskID =
     \<lparr>et_TaskID = ID invocation @ ''.run.'' @ taskID, et_GroupID = ID invocation,
      et_Apply = ExecTask invocation taskID\<rparr>"

text \<open>
  \<^verbatim>\<open>allTasksFinished\<close> and the first loop of \<^verbatim>\<open>determineTaskOutput\<close>: a flag that
  starts true and a loop over the task ids that clears it and breaks at the first task
  that is not finished (not successful).
\<close>

primrec allTasksFinished_loop :: "(string \<rightharpoonup> TaskInvocation) \<Rightarrow> string list \<Rightarrow> bool" where
  "allTasksFinished_loop tasks [] = True"
| "allTasksFinished_loop tasks (ident # ids) =
     (if tasks ident = None \<or> \<not> TaskInvocation_Finished (tasks ident) then False
      else allTasksFinished_loop tasks ids)"

definition allTasksFinished :: "WorkflowInvocation \<Rightarrow> bool" where
  "allTasksFinished invocation =
     allTasksFinished_loop (wist_Tasks (wi_Status invocation)) (Tasks invocation)"

primrec success_loop :: "(string \<rightharpoonup> TaskInvocation) \<Rightarrow> string list \<Rightarrow> bool" where
  "success_loop tasks [] = True"
| "success_loop tasks (ident # ids) =
     (if \<not> TaskInvocation_Successful (tasks ident) then False else success_loop tasks ids)"

definition OutputTask_of :: "WorkflowInvocation \<Rightarrow> string" where
  "OutputTask_of invocation =
     (case Workflow_of invocation of None \<Rightarrow> '''' | Some wfl \<Rightarrow> wfs_OutputTask (wf_Spec wfl))"

definition determineTaskOutput :: "Engine \<Rightarrow> WorkflowInvocation \<Rightarrow> string + (TypedValue option \<times> TypedValue option)" where
  "determineTaskOutput E invocation =
     (let success = success_loop (wist_Tasks (wi_Status invocation)) (Tasks invocation);
          (finalOutput, finalOutputHeaders) =
            (if length (OutputTask_of invocation) \<noteq> 0
             then (ResolveTaskOutput E (OutputTask_of invocation) invocation,
                   ResolveTaskOutputHeaders E (OutputTask_of invocation) invocation)
             else (None, None))
      in if success then Inr (finalOutput, finalOutputHeaders)
         else Inl ''one or more tasks in the workflow have failed'')"

text \<open>The three loops over the schedule at the end of \<^verbatim>\<open>Eval\<close>.\<close>

primrec submitPrepareTasks :: "Engine \<Rightarrow> WorkflowInvocation \<Rightarrow> PrepareTaskAction list \<Rightarrow> LocalExecutor \<Rightarrow> LocalExecutor" where
  "submitPrepareTasks E invocation [] ex = ex"
| "submitPrepareTasks E invocation (action # actions) ex =
     submitPrepareTasks E invocation actions (snd (Submit E ex (prewarmTask invocation action)))"

primrec markScheduled :: "RunTaskAction list \<Rightarrow> string set \<Rightarrow> string set" where
  "markScheduled [] scheduled = scheduled"
| "markScheduled (action # actions) scheduled = markScheduled actions (insert (rta_TaskID action) scheduled)"

primrec submitRunTasks :: "Engine \<Rightarrow> WorkflowInvocation \<Rightarrow> RunTaskAction list \<Rightarrow> InvocationController \<times> LocalExecutor \<Rightarrow> InvocationController \<times> LocalExecutor" where
  "submitRunTasks E invocation [] cx = cx"
| "submitRunTasks E invocation (action # actions) cx =
     (let taskID = rta_TaskID action;
          (accepted, ex') = Submit E (snd cx) (runTask invocation taskID)
      in submitRunTasks E invocation actions
           (if accepted then (fst cx)\<lparr>startedTasks := insert (rta_TaskID action) (startedTasks (fst cx))\<rparr>
            else fst cx, ex'))"

text \<open>
  \<^verbatim>\<open>Eval\<close>, with the current time as a parameter. It returns the result with the
  controller and the executor as it leaves them. It is written in three parts: the
  deadline that \<^verbatim>\<open>Eval\<close> reads (the one of the spec, or the creation time plus
  \<^verbatim>\<open>DefaultMaxRuntime\<close> when that one cannot be read), the part of the body from
  ``Check if all tasks have finished'' to its end (\<open>evalTasks\<close>), and the checks before it.
\<close>

definition invocationDeadline :: "WorkflowInvocation \<Rightarrow> string + Time" where
  "invocationDeadline invocation =
     (case ptypes_Timestamp (wis_Deadline (wi_Spec invocation)) of
        Inr deadline \<Rightarrow> Inr deadline
      | Inl e \<Rightarrow>
          (case ptypes_Timestamp (wi_CreatedAt invocation) of
             Inl e' \<Rightarrow> Inl ''failed to read deadline and createdAt''
           | Inr createdAt \<Rightarrow> Inr (Time_Add createdAt DefaultMaxRuntime)))"

definition evalTasks :: "Engine \<Rightarrow> WorkflowInvocation \<Rightarrow> InvocationController \<times> LocalExecutor \<Rightarrow> Result \<times> InvocationController \<times> LocalExecutor" where
  "evalTasks E invocation cx =
     (let c = fst cx; ex = snd cx in
      if allTasksFinished invocation then
        (case determineTaskOutput E invocation of
           Inl err \<Rightarrow> (Err err, c, snd (Submit E ex (failTask invocation err)))
         | Inr (output, outputHeaders) \<Rightarrow>
             (Success ''all tasks of the invocation have completed'', c,
              snd (Submit E ex (successTask invocation output outputHeaders))))
      else
        (case scheduler_Evaluate E invocation (sheduledTasks c) of
           Inl err \<Rightarrow> (Err err, c, ex)
         | Inr schedule \<Rightarrow>
             (case Abort schedule of
                Some abortAction \<Rightarrow>
                  (let err = Reason abortAction in
                   (Err err, c, snd (Submit E ex (failTask invocation err))))
              | None \<Rightarrow>
                  (let ex1 = submitPrepareTasks E invocation (PrepareTasks schedule) ex;
                       c1 = c\<lparr>sheduledTasks := markScheduled (RunTasks schedule) (sheduledTasks c)\<rparr>;
                       (c2, ex2) = submitRunTasks E invocation (RunTasks schedule) (c1, ex1)
                   in (Success (''scheduled execution of '' @ Itoa (length (RunTasks schedule))
                         @ '' tasks and preparation of '' @ Itoa (length (PrepareTasks schedule))
                         @ '' tasks''), c2, ex2)))))"

definition Eval :: "Engine \<Rightarrow> Time \<Rightarrow> Event \<Rightarrow> InvocationController \<times> LocalExecutor \<Rightarrow> Result \<times> InvocationController \<times> LocalExecutor" where
  "Eval E now processValue cx =
     (let c = fst cx; ex = snd cx in
      case Updated processValue of
        EntityInvocation invocation \<Rightarrow>
          if ID invocation \<noteq> invocationID c then
            (Err (''invocation ID expected '' @ invocationID c @ '', but was '' @ ID invocation), c, ex)
          else if Workflow_of invocation = None then
            (let err = ''workflow is not present in the invocation'' in
             (Err err, c, snd (Submit E ex (failTask invocation err))))
          else if WorkflowInvocationStatus_Finished (wist_Status (wi_Status invocation)) then
            (Done (''invocation is in a terminal state ('' @
               WorkflowInvocationStatus_String (wist_Status (wi_Status invocation)) @ '')''), c, ex)
          else
            (case invocationDeadline invocation of
               Inl err \<Rightarrow> (Err err, c, snd (Submit E ex (failTask invocation err)))
             | Inr deadline \<Rightarrow>
                 if Time_After now deadline then
                   (let err = ''deadline exceeded'' in
                    (Err err, c, snd (Submit E ex (failTask invocation err))))
                 else if 0 < errorCount c then
                   (let err = ''error count exceeded'' in
                    (Err err, c, snd (Submit E ex (failTask invocation err))))
                 else evalTasks E invocation (c, ex))
      | other \<Rightarrow>
          (Err (''entity expected *types.WorkflowInvocation, but was '' @ Entity_TypeName other), c, ex))"

text \<open>
  \<^verbatim>\<open>execTask\<close> is what a submitted run task does. Tracing and logging are left out.
  \<^verbatim>\<open>resolveInputs\<close> builds the scope, stores it under the invocation's id and resolves
  the inputs in priority order, writing each resolved input into the scope (the stored
  scope is the same object, so the store sees these writes). A missing task entry in the
  scope is a nil pointer: the write panics.
\<close>

definition parentScope_of :: "Store \<Rightarrow> WorkflowInvocation \<Rightarrow> Scope option" where
  "parentScope_of store invocation =
     (if length (wis_ParentId (wi_Spec invocation)) \<noteq> 0
      then store (wis_ParentId (wi_Spec invocation)) else None)"

primrec resolveInputs_loop :: "Engine \<Rightarrow> string \<Rightarrow> (string \<times> TypedValue) list \<Rightarrow> Scope \<Rightarrow> (string \<rightharpoonup> TypedValue) \<Rightarrow> ((string + (string \<rightharpoonup> TypedValue)) \<times> Scope) outcome" where
  "resolveInputs_loop E taskID [] scope resolvedInputs = Returned (Inr resolvedInputs, scope)"
| "resolveInputs_loop E taskID (input # inputs) scope resolvedInputs =
     (case Resolve E scope taskID (snd input) of
        Inl err \<Rightarrow> Returned (Inl (''failed to resolve input field '' @ fst input @ '': '' @ err), scope)
      | Inr resolvedInput \<Rightarrow>
          (case sc_Tasks scope taskID of
             None \<Rightarrow> Panicked
           | Some t \<Rightarrow>
               resolveInputs_loop E taskID inputs
                 (scope\<lparr>sc_Tasks := (sc_Tasks scope)(taskID \<mapsto>
                     t\<lparr>tsc_Inputs := (tsc_Inputs t)(fst input \<mapsto> resolvedInput)\<rparr>)\<rparr>)
                 (resolvedInputs(fst input \<mapsto> resolvedInput))))"

definition resolveInputs :: "Engine \<Rightarrow> Store \<Rightarrow> WorkflowInvocation \<Rightarrow> string \<Rightarrow> (string \<times> TypedValue) list \<Rightarrow> ((string + (string \<rightharpoonup> TypedValue)) \<times> Store) outcome" where
  "resolveInputs E store invocation taskID inputs =
     (case NewScope E (parentScope_of store invocation) invocation of
        Inl err \<Rightarrow> Returned (Inl (''failed to create scope for task '' @ [CHR 0x27] @ taskID @ [CHR 0x27] @ '': '' @ err), store)
      | Inr scope \<Rightarrow>
          (case resolveInputs_loop E taskID (Prioritize E inputs) scope Map.empty of
             Panicked \<Rightarrow> Panicked
           | Returned (r, scope') \<Rightarrow> Returned (r, store(ID invocation \<mapsto> scope'))))"

text \<open>
  \<^verbatim>\<open>execTask\<close> returns its error (nil is \<open>None\<close>) with the controller and the store.
  The only place where a task id leaves \<^verbatim>\<open>sheduledTasks\<close> is after a task API
  \<^verbatim>\<open>Invoke\<close> that returned no error.
\<close>

definition execTask :: "Engine \<Rightarrow> Time \<Rightarrow> WorkflowInvocation \<Rightarrow> string \<Rightarrow> InvocationController \<times> Store \<Rightarrow> (string option \<times> InvocationController \<times> Store) outcome" where
  "execTask E now invocation taskID cs =
     (let c = fst cs; store = snd cs in
      case Task_of invocation taskID of
        None \<Rightarrow> Returned (Some (''task '' @ [CHR 0x27] @ ID invocation @ [CHR 0x27] @ '' could not be found''), c, store)
      | Some task \<Rightarrow>
          if ts_FnRef (task_Status task) = None then
            Returned (Some (''no resolved task could be found for FunctionRef '' @ [CHR 0x27]
              @ tsp_FunctionRef (task_Spec task) @ [CHR 0x27]), c, store)
          else
            (case (if 0 < length (tsp_Inputs (task_Spec task))
                   then resolveInputs E store invocation (task_Id task) (tsp_Inputs (task_Spec task))
                   else Returned (Inr Map.empty, store)) of
               Panicked \<Rightarrow> Panicked
             | Returned (Inl err, store') \<Rightarrow> Returned (Some err, c, store')
             | Returned (Inr inputs, store') \<Rightarrow>
                 (let taskRunSpec = (NewTaskInvocationSpec E invocation task now)\<lparr>tispec_Inputs := inputs\<rparr>
                  in case taskAPI_Invoke E taskRunSpec of
                       Inl err \<Rightarrow> Returned (Some err, c, store')
                     | Inr updated \<Rightarrow>
                         Returned (None, c\<lparr>sheduledTasks := sheduledTasks c - {taskID}\<rparr>, store'))))"







section \<open>Sample clients\<close>

text \<open>
  A Fission deployment for the concrete evaluations below: every function has a service
  at its own name, the URL parser accepts every URL, requests are built as given, and the
  function \<^verbatim>\<open>boom\<close> answers 500 with its body, the function \<^verbatim>\<open>garbled\<close> answers
  502 with a body that cannot be parsed, the function \<^verbatim>\<open>down\<close> cannot be reached,
  every other one answers 200. A spec without an invocation id is invalid.
\<close>

definition sample_Clients :: Clients where
  "sample_Clients =
     \<lparr>GetServiceForFunction = (\<lambda>meta. Inr (om_Name meta @ ''.svc'')),
      url_Parse = (\<lambda>raw. Inr raw),
      validate_TaskInvocationSpec = (\<lambda>spec.
         if tispec_InvocationId spec = [] then Some ''invocationId is required'' else None),
      http_NewRequest = (\<lambda>m u. Inr \<lparr>req_Method = m, req_URL = u, req_Inputs = Map.empty\<rparr>),
      FormatRequest = (\<lambda>inputs req. Inr (req\<lparr>req_Inputs := inputs\<rparr>)),
      client_Do = (\<lambda>req. if req_URL req = ''http://router/fission-function/boom''
                          then Inr \<lparr>StatusCode = 500, resp_Body = ''out of memory''\<rparr>
                          else if req_URL req = ''http://router/fission-function/garbled''
                          then Inr \<lparr>StatusCode = 502, resp_Body = ''<html>''\<rparr>
                          else if req_URL req = ''http://router/fission-function/down''
                          then Inl ''connection refused''
                          else Inr \<lparr>StatusCode = 200, resp_Body = ''ok''\<rparr>),
      ParseResponse = (\<lambda>resp. if resp_Body resp = ''<html>'' then Inl ''unsupported content type''
                              else Inr (TVString (resp_Body resp))),
      ParseResponseHeaders = (\<lambda>resp. None),
      Sprint_Unwrap = (\<lambda>v. case v of TVString s \<Rightarrow> s | _ \<Rightarrow> ''<nil>'')\<rparr>"

definition sample_FunctionEnv :: FunctionEnv where
  "sample_FunctionEnv = \<lparr>routerURL = ''http://router/'', timedExecService = []\<rparr>"

definition sample_FnRef :: "string \<Rightarrow> FnRef" where
  "sample_FnRef name = \<lparr>fn_Runtime = ''fission'', fn_Namespace = '''', fn_ID = name\<rparr>"

definition sample_TaskInvocationSpec :: "string \<Rightarrow> TaskInvocationSpec" where
  "sample_TaskInvocationSpec name =
     \<lparr>tispec_Task = Some \<lparr>task_Id = ''t'',
        task_Spec = \<lparr>tsp_FunctionRef = name, tsp_Inputs = [], tsp_Output = None, tsp_OutputHeaders = None\<rparr>,
        task_Status = \<lparr>ts_FnRef = Some (sample_FnRef name)\<rparr>\<rparr>,
      tispec_Inputs = Map.empty, tispec_Deadline = None, tispec_InvocationId = ''inv''\<rparr>"

section \<open>Sample engine and invocations\<close>

text \<open>
  Modelled from the spec: the scheduler is not among the sources. The default policy, here
  for tasks without dependencies, runs the tasks that are not in the set of scheduled
  task ids and have no task invocation yet; it prepares none and never aborts.
\<close>

definition sample_Evaluate :: "WorkflowInvocation \<Rightarrow> string set \<Rightarrow> string + Schedule" where
  "sample_Evaluate invocation scheduled =
     Inr \<lparr>Abort = None,
          RunTasks = map (\<lambda>ident. \<lparr>rta_TaskID = ident\<rparr>)
            (filter (\<lambda>ident. ident \<notin> scheduled \<and> wist_Tasks (wi_Status invocation) ident = None)
               (Tasks invocation)),
          PrepareTasks = []\<rparr>"

text \<open>
  Modelled from the spec: the expression engine is not among the sources.
  \<^verbatim>\<open>expr.Resolve\<close> evaluates an expression against the scope (the output or the output
  headers of a task, and the fields selected from it) and returns every other value
  verbatim; \<^verbatim>\<open>expr.NewScope\<close> builds the scope from the invocation, each task of the
  workflow with the output and output headers of its task invocation.
\<close>

fun select_path :: "TypedValue \<Rightarrow> string list \<Rightarrow> string + TypedValue" where
  "select_path v [] = Inr v"
| "select_path (TVMap m) (f # fs) =
     (case map_of m f of None \<Rightarrow> Inl (''no field '' @ f) | Some v \<Rightarrow> select_path v fs)"
| "select_path v (f # fs) = Inl (''no field '' @ f)"

definition sample_Resolve :: "Scope \<Rightarrow> string \<Rightarrow> TypedValue \<Rightarrow> string + TypedValue" where
  "sample_Resolve scope taskID v =
     (case v of
        TVExpression (ExprTaskOutput ident fs) \<Rightarrow>
          (case sc_Tasks scope ident of
             None \<Rightarrow> Inl (''unknown task '' @ ident)
           | Some t \<Rightarrow>
               (case tsc_Output t of
                  None \<Rightarrow> Inl (''no output of task '' @ ident)
                | Some out \<Rightarrow> select_path out fs))
      | TVExpression (ExprTaskOutputHeaders ident fs) \<Rightarrow>
          (case sc_Tasks scope ident of
             None \<Rightarrow> Inl (''unknown task '' @ ident)
           | Some t \<Rightarrow>
               (case tsc_OutputHeaders t of
                  None \<Rightarrow> Inl (''no output headers of task '' @ ident)
                | Some out \<Rightarrow> select_path out fs))
      | other \<Rightarrow> Inr other)"

definition sample_NewScope :: "Scope option \<Rightarrow> WorkflowInvocation \<Rightarrow> string + Scope" where
  "sample_NewScope parent invocation =
     Inr \<lparr>sc_Tasks = (\<lambda>ident.
            if ident \<in> set (Tasks invocation) then
              Some \<lparr>tsc_Inputs = Map.empty,
                    tsc_Output = (case wist_Tasks (wi_Status invocation) ident of
                                    None \<Rightarrow> None | Some ti \<Rightarrow> tis_Output (ti_Status ti)),
                    tsc_OutputHeaders = (case wist_Tasks (wi_Status invocation) ident of
                                    None \<Rightarrow> None | Some ti \<Rightarrow> tis_OutputHeaders (ti_Status ti))\<rparr>
            else None)\<rparr>"

text \<open>
  The engine of the concrete evaluations below. Its executor accepts every task or
  rejects every task (its queue is full), as the flag says; its task API is unavailable.
\<close>

definition sample_Engine :: "bool \<Rightarrow> Engine" where
  "sample_Engine accepting =
     \<lparr>executor_Accepts = (\<lambda>ex task. accepting),
      scheduler_Evaluate = sample_Evaluate,
      ResolveTaskOutput = (\<lambda>ident invocation.
         case wist_Tasks (wi_Status invocation) ident of
           None \<Rightarrow> None | Some ti \<Rightarrow> tis_Output (ti_Status ti)),
      ResolveTaskOutputHeaders = (\<lambda>ident invocation.
         case wist_Tasks (wi_Status invocation) ident of
           None \<Rightarrow> None | Some ti \<Rightarrow> tis_OutputHeaders (ti_Status ti)),
      NewScope = sample_NewScope,
      Resolve = sample_Resolve,
      Prioritize = (\<lambda>inputs. inputs),
      NewTaskInvocationSpec = (\<lambda>invocation task now.
         \<lparr>tispec_Task = Some task, tispec_Inputs = Map.empty, tispec_Deadline = None,
          tispec_InvocationId = ID invocation\<rparr>),
      taskAPI_Invoke = (\<lambda>spec. Inl ''unavailable'')\<rparr>"

definition sample_TaskSpec :: "TypedValue option \<Rightarrow> TaskSpec" where
  "sample_TaskSpec out =
     \<lparr>tsp_FunctionRef = ''noop'', tsp_Inputs = [], tsp_Output = out, tsp_OutputHeaders = None\<rparr>"

definition sample_Workflow :: "string list \<Rightarrow> Workflow" where
  "sample_Workflow ids =
     \<lparr>wf_Id = ''wf'',
      wf_Spec = \<lparr>wfs_Tasks = map (\<lambda>ident. (ident, sample_TaskSpec None)) ids, wfs_OutputTask = []\<rparr>,
      wf_TaskStatus = (\<lambda>ident. Some \<lparr>ts_FnRef = Some (sample_FnRef ''noop'')\<rparr>)\<rparr>"

definition sample_Workflow_with_output :: "string list \<Rightarrow> string \<Rightarrow> Workflow" where
  "sample_Workflow_with_output ids out =
     \<lparr>wf_Id = ''wf'',
      wf_Spec = \<lparr>wfs_Tasks = map (\<lambda>ident. (ident, sample_TaskSpec None)) ids, wfs_OutputTask = out\<rparr>,
      wf_TaskStatus = (\<lambda>ident. Some \<lparr>ts_FnRef = Some (sample_FnRef ''noop'')\<rparr>)\<rparr>"

text \<open>
  An invocation \<^verbatim>\<open>inv\<close> created 100 seconds after the epoch, with no deadline of its
  own: its deadline is 700 seconds after the epoch.
\<close>

definition sample_Invocation :: "Workflow option \<Rightarrow> WorkflowInvocationStatus_Status \<Rightarrow> (string \<rightharpoonup> TaskInvocation) \<Rightarrow> WorkflowInvocation" where
  "sample_Invocation w st tasks =
     \<lparr>wi_Id = ''inv'', wi_CreatedAt = Some \<lparr>Seconds = 100, Nanos = 0\<rparr>,
      wi_Spec = \<lparr>wis_Workflow = w, wis_Deadline = None, wis_ParentId = []\<rparr>,
      wi_Status = \<lparr>wist_Status = st, wist_Tasks = tasks\<rparr>\<rparr>"

definition sample_TaskInvocation :: "string \<Rightarrow> TaskSpec \<Rightarrow> TaskInvocationStatus_Status \<Rightarrow> TypedValue option \<Rightarrow> TaskInvocation" where
  "sample_TaskInvocation ident spec st out =
     \<lparr>ti_Id = ident,
      ti_Spec = \<lparr>tispec_Task = Some \<lparr>task_Id = ident, task_Spec = spec,
                   task_Status = \<lparr>ts_FnRef = Some (sample_FnRef ''noop'')\<rparr>\<rparr>,
                 tispec_Inputs = Map.empty, tispec_Deadline = None, tispec_InvocationId = ''inv''\<rparr>,
      ti_Status = \<lparr>tis_Status = st, tis_Output = out, tis_OutputHeaders = None, tis_Error = None\<rparr>\<rparr>"





definition sample_Event :: "Entity \<Rightarrow> Event" where
  "sample_Event e = \<lparr>Old = e, Updated = e\<rparr>"

section \<open>Properties of the Fission runtime\<close>

lemma sint_neg_provisionDuration: "sint (- provisionDuration) = 999500"
  by (simp add: provisionDuration_def Millisecond_def Microsecond_def Nanosecond_def)

text \<open>
  Claim C2 says that \<^verbatim>\<open>Notify(fnRef, expectedAt)\<close> schedules the tap exactly 500
  milliseconds before \<open>expectedAt\<close>. The code does not: \<open>provisionDuration\<close> is
  \<open>500 ns - 1 ms\<close>, a negative duration, so the tap is scheduled 999500 nanoseconds
  after \<open>expectedAt\<close>. For a request expected one second after the epoch the tap is set
  at 1000999500 ns, where the claim asks for 500000000 ns.
\<close>

theorem Notify_execAt_not_500ms_before:
  "Notify sample_Clients sample_FunctionEnv (sample_FnRef ''fn'') 1000000000
     = Returned (None, \<lparr>routerURL = ''http://router/'',
                        timedExecService = [(TapService ''http://fn.svc'', 1000999500)]\<rparr>)
   \<and> (1000999500 :: int) \<noteq> 1000000000 - 500000000"
  by (simp add: Notify_def getFnURL_def createFunctionMeta_def sample_Clients_def
      sample_FunctionEnv_def sample_FnRef_def defaultProtocol_def timedExec_Submit_def
      Time_Add_def sint_neg_provisionDuration)

lemma sample_createRouterURL:
  "createRouterURL sample_FunctionEnv (sample_FnRef ''boom'') = ''http://router/fission-function/boom''"
  "createRouterURL sample_FunctionEnv (sample_FnRef ''garbled'') = ''http://router/fission-function/garbled''"
  "createRouterURL sample_FunctionEnv (sample_FnRef ''down'') = ''http://router/fission-function/down''"
  "createRouterURL sample_FunctionEnv (sample_FnRef ''ok'') = ''http://router/fission-function/ok''"
  by (simp_all add: createRouterURL_def sample_FunctionEnv_def sample_FnRef_def TrimLeft_slash_def
      TrimRight_slash_def Trim_slash_def NamespaceDefault_def)

lemma sample_spec_FnRef:
  "(case tispec_Task (sample_TaskInvocationSpec name) of None \<Rightarrow> None | Some t \<Rightarrow> ts_FnRef (task_Status t))
     = Some (sample_FnRef name)"
  by (simp add: sample_TaskInvocationSpec_def)

text \<open>
  Claim C10 says that an application failure (an HTTP status of 400 or more) yields the
  status \<^verbatim>\<open>FAILED\<close> with the error message and a nil engine error, and that an engine
  error is returned only for request construction, transport or response parsing. The
  code parses the response before it reads the status, and it validates the spec first.
  As amended, for a call of \<^verbatim>\<open>Invoke\<close> with clients \<open>cl\<close>: without a function
  reference, or when the request cannot be created, it panics; otherwise it returns an
  engine error exactly when the validation of the spec fails (that error), when the
  mapping of the inputs onto the request fails (that error), when the transport fails
  (``error for reqUrl ...'') or when the parsing of the response fails (``failed to
  parse output: ...''), the last whatever the status of the response is; and when the
  response parses, a status of 400 or more gives the status \<^verbatim>\<open>FAILED\<close> with the
  message ``fission function error: '' followed by the output and no engine error, a
  status below 400 gives \<^verbatim>\<open>SUCCEEDED\<close> with the output and the output headers.
\<close>

theorem Invoke_outcomes:
  "((case tispec_Task spec of None \<Rightarrow> None | Some t \<Rightarrow> ts_FnRef (task_Status t)) = None \<longrightarrow>
      Invoke cl fe spec = Panicked)
   \<and> (\<forall>fnRef. (case tispec_Task spec of None \<Rightarrow> None | Some t \<Rightarrow> ts_FnRef (task_Status t)) = Some fnRef \<longrightarrow>
        (\<forall>err. validate_TaskInvocationSpec cl spec = Some err \<longrightarrow> Invoke cl fe spec = Returned (Inl err))
      \<and> (validate_TaskInvocationSpec cl spec = None \<longrightarrow>
           (\<forall>e. http_NewRequest cl defaultHTTPMethod (createRouterURL fe fnRef) = Inl e \<longrightarrow>
                Invoke cl fe spec = Panicked)
         \<and> (\<forall>req0. http_NewRequest cl defaultHTTPMethod (createRouterURL fe fnRef) = Inr req0 \<longrightarrow>
              (\<forall>err. FormatRequest cl (tispec_Inputs spec) req0 = Inl err \<longrightarrow>
                   Invoke cl fe spec = Returned (Inl err))
            \<and> (\<forall>req. FormatRequest cl (tispec_Inputs spec) req0 = Inr req \<longrightarrow>
                 (\<forall>e. client_Do cl req = Inl e \<longrightarrow>
                      Invoke cl fe spec =
                        Returned (Inl (''error for reqUrl '' @ [CHR 0x27] @ createRouterURL fe fnRef
                                       @ [CHR 0x27] @ '': '' @ e)))
               \<and> (\<forall>resp. client_Do cl req = Inr resp \<longrightarrow>
                    (\<forall>e. ParseResponse cl resp = Inl e \<longrightarrow>
                         Invoke cl fe spec = Returned (Inl (''failed to parse output: '' @ e)))
                  \<and> (\<forall>output. ParseResponse cl resp = Inr output \<longrightarrow>
                       (400 \<le> StatusCode resp \<longrightarrow>
                          Invoke cl fe spec =
                            Returned (Inr \<lparr>tis_Status = TaskInvocationStatus_FAILED, tis_Output = None,
                              tis_OutputHeaders = None,
                              tis_Error = Some \<lparr>Message = ''fission function error: '' @ Sprint_Unwrap cl output\<rparr>\<rparr>))
                     \<and> (StatusCode resp < 400 \<longrightarrow>
                          Invoke cl fe spec =
                            Returned (Inr \<lparr>tis_Status = TaskInvocationStatus_SUCCEEDED,
                              tis_Output = Some output,
                              tis_OutputHeaders = ParseResponseHeaders cl resp,
                              tis_Error = None\<rparr>))))))))
   \<and> (\<forall>err. Invoke cl fe spec = Returned (Inl err) \<longrightarrow>
        (\<exists>fnRef. (case tispec_Task spec of None \<Rightarrow> None | Some t \<Rightarrow> ts_FnRef (task_Status t)) = Some fnRef
          \<and> (validate_TaskInvocationSpec cl spec = Some err
             \<or> (validate_TaskInvocationSpec cl spec = None
                \<and> (\<exists>req0. http_NewRequest cl defaultHTTPMethod (createRouterURL fe fnRef) = Inr req0
                     \<and> (FormatRequest cl (tispec_Inputs spec) req0 = Inl err
                        \<or> (\<exists>req. FormatRequest cl (tispec_Inputs spec) req0 = Inr req
                             \<and> ((\<exists>e. client_Do cl req = Inl e
                                    \<and> err = ''error for reqUrl '' @ [CHR 0x27] @ createRouterURL fe fnRef
                                             @ [CHR 0x27] @ '': '' @ e)
                                \<or> (\<exists>resp e. client_Do cl req = Inr resp
                                     \<and> ParseResponse cl resp = Inl e
                                     \<and> err = ''failed to parse output: '' @ e)))))))))"
proof (intro conjI)
  show "(case tispec_Task spec of None \<Rightarrow> None | Some t \<Rightarrow> ts_FnRef (task_Status t)) = None \<longrightarrow>
      Invoke cl fe spec = Panicked"
    by (simp add: Invoke_def)
next
  show "\<forall>fnRef. (case tispec_Task spec of None \<Rightarrow> None | Some t \<Rightarrow> ts_FnRef (task_Status t)) = Some fnRef \<longrightarrow>
        (\<forall>err. validate_TaskInvocationSpec cl spec = Some err \<longrightarrow> Invoke cl fe spec = Returned (Inl err))
      \<and> (validate_TaskInvocationSpec cl spec = None \<longrightarrow>
           (\<forall>e. http_NewRequest cl defaultHTTPMethod (createRouterURL fe fnRef) = Inl e \<longrightarrow>
                Invoke cl fe spec = Panicked)
         \<and> (\<forall>req0. http_NewRequest cl defaultHTTPMethod (createRouterURL fe fnRef) = Inr req0 \<longrightarrow>
              (\<forall>err. FormatRequest cl (tispec_Inputs spec) req0 = Inl err \<longrightarrow>
                   Invoke cl fe spec = Returned (Inl err))
            \<and> (\<forall>req. FormatRequest cl (tispec_Inputs spec) req0 = Inr req \<longrightarrow>
                 (\<forall>e. client_Do cl req = Inl e \<longrightarrow>
                      Invoke cl fe spec =
                        Returned (Inl (''error for reqUrl '' @ [CHR 0x27] @ createRouterURL fe fnRef
                                       @ [CHR 0x27] @ '': '' @ e)))
               \<and> (\<forall>resp. client_Do cl req = Inr resp \<longrightarrow>
                    (\<forall>e. ParseResponse cl resp = Inl e \<longrightarrow>
                         Invoke cl fe spec = Returned (Inl (''failed to parse output: '' @ e)))
                  \<and> (\<forall>output. ParseResponse cl resp = Inr output \<longrightarrow>
                       (400 \<le> StatusCode resp \<longrightarrow>
                          Invoke cl fe spec =
                            Returned (Inr \<lparr>tis_Status = TaskInvocationStatus_FAILED, tis_Output = None,
                              tis_OutputHeaders = None,
                              tis_Error = Some \<lparr>Message = ''fission function error: '' @ Sprint_Unwrap cl output\<rparr>\<rparr>))
                     \<and> (StatusCode resp < 400 \<longrightarrow>
                          Invoke cl fe spec =
                            Returned (Inr \<lparr>tis_Status = TaskInvocationStatus_SUCCEEDED,
                              tis_Output = Some output,
                              tis_OutputHeaders = ParseResponseHeaders cl resp,
                              tis_Error = None\<rparr>)))))))"
    by (simp add: Invoke_def Let_def)
next
  show "\<forall>err. Invoke cl fe spec = Returned (Inl err) \<longrightarrow>
        (\<exists>fnRef. (case tispec_Task spec of None \<Rightarrow> None | Some t \<Rightarrow> ts_FnRef (task_Status t)) = Some fnRef
          \<and> (validate_TaskInvocationSpec cl spec = Some err
             \<or> (validate_TaskInvocationSpec cl spec = None
                \<and> (\<exists>req0. http_NewRequest cl defaultHTTPMethod (createRouterURL fe fnRef) = Inr req0
                     \<and> (FormatRequest cl (tispec_Inputs spec) req0 = Inl err
                        \<or> (\<exists>req. FormatRequest cl (tispec_Inputs spec) req0 = Inr req
                             \<and> ((\<exists>e. client_Do cl req = Inl e
                                    \<and> err = ''error for reqUrl '' @ [CHR 0x27] @ createRouterURL fe fnRef
                                             @ [CHR 0x27] @ '': '' @ e)
                                \<or> (\<exists>resp e. client_Do cl req = Inr resp
                                     \<and> ParseResponse cl resp = Inl e
                                     \<and> err = ''failed to parse output: '' @ e))))))))"
    unfolding Invoke_def Let_def
    by (auto split: option.splits sum.splits if_splits)
qed

theorem Invoke_outcomes_witness:
  "Invoke sample_Clients sample_FunctionEnv (sample_TaskInvocationSpec ''boom'') =
     Returned (Inr \<lparr>tis_Status = TaskInvocationStatus_FAILED, tis_Output = None,
       tis_OutputHeaders = None,
       tis_Error = Some \<lparr>Message = ''fission function error: out of memory''\<rparr>\<rparr>)
   \<and> Invoke sample_Clients sample_FunctionEnv (sample_TaskInvocationSpec ''ok'') =
     Returned (Inr \<lparr>tis_Status = TaskInvocationStatus_SUCCEEDED, tis_Output = Some (TVString ''ok''),
       tis_OutputHeaders = None, tis_Error = None\<rparr>)
   \<and> Invoke sample_Clients sample_FunctionEnv (sample_TaskInvocationSpec ''garbled'') =
     Returned (Inl ''failed to parse output: unsupported content type'')
   \<and> Invoke sample_Clients sample_FunctionEnv (sample_TaskInvocationSpec ''down'') =
     Returned (Inl ''error for reqUrl 'http://router/fission-function/down': connection refused'')
   \<and> Invoke sample_Clients sample_FunctionEnv ((sample_TaskInvocationSpec ''ok'')\<lparr>tispec_InvocationId := []\<rparr>) =
     Returned (Inl ''invocationId is required'')
   \<and> Invoke sample_Clients sample_FunctionEnv ((sample_TaskInvocationSpec ''ok'')\<lparr>tispec_Task := None\<rparr>) = Panicked"
proof -
  let ?cl = sample_Clients and ?fe = sample_FunctionEnv
  let ?boom = "\<lparr>req_Method = ''POST'', req_URL = ''http://router/fission-function/boom'', req_Inputs = Map.empty\<rparr>"
  let ?ok = "\<lparr>req_Method = ''POST'', req_URL = ''http://router/fission-function/ok'', req_Inputs = Map.empty\<rparr>"
  let ?garbled = "\<lparr>req_Method = ''POST'', req_URL = ''http://router/fission-function/garbled'', req_Inputs = Map.empty\<rparr>"
  let ?down = "\<lparr>req_Method = ''POST'', req_URL = ''http://router/fission-function/down'', req_Inputs = Map.empty\<rparr>"
  have v: "\<And>name. validate_TaskInvocationSpec ?cl (sample_TaskInvocationSpec name) = None"
    by (simp add: sample_Clients_def sample_TaskInvocationSpec_def)
  have nr: "http_NewRequest ?cl defaultHTTPMethod (createRouterURL ?fe (sample_FnRef ''boom'')) = Inr ?boom"
    "http_NewRequest ?cl defaultHTTPMethod (createRouterURL ?fe (sample_FnRef ''ok'')) = Inr ?ok"
    "http_NewRequest ?cl defaultHTTPMethod (createRouterURL ?fe (sample_FnRef ''garbled'')) = Inr ?garbled"
    "http_NewRequest ?cl defaultHTTPMethod (createRouterURL ?fe (sample_FnRef ''down'')) = Inr ?down"
    by (simp_all add: sample_Clients_def defaultHTTPMethod_def sample_createRouterURL)
  have fr: "FormatRequest ?cl (tispec_Inputs (sample_TaskInvocationSpec ''boom'')) ?boom = Inr ?boom"
    "FormatRequest ?cl (tispec_Inputs (sample_TaskInvocationSpec ''ok'')) ?ok = Inr ?ok"
    "FormatRequest ?cl (tispec_Inputs (sample_TaskInvocationSpec ''garbled'')) ?garbled = Inr ?garbled"
    "FormatRequest ?cl (tispec_Inputs (sample_TaskInvocationSpec ''down'')) ?down = Inr ?down"
    by (simp_all add: sample_Clients_def sample_TaskInvocationSpec_def)
  have do1: "client_Do ?cl ?boom = Inr \<lparr>StatusCode = 500, resp_Body = ''out of memory''\<rparr>"
    by (simp add: sample_Clients_def)
  have do2: "client_Do ?cl ?ok = Inr \<lparr>StatusCode = 200, resp_Body = ''ok''\<rparr>"
    by (simp add: sample_Clients_def)
  have do3: "client_Do ?cl ?garbled = Inr \<lparr>StatusCode = 502, resp_Body = ''<html>''\<rparr>"
    by (simp add: sample_Clients_def)
  have do4: "client_Do ?cl ?down = Inl ''connection refused''"
    by (simp add: sample_Clients_def)
  have pr1: "ParseResponse ?cl \<lparr>StatusCode = 500, resp_Body = ''out of memory''\<rparr> = Inr (TVString ''out of memory'')"
    by (simp add: sample_Clients_def)
  have pr2: "ParseResponse ?cl \<lparr>StatusCode = 200, resp_Body = ''ok''\<rparr> = Inr (TVString ''ok'')"
    by (simp add: sample_Clients_def)
  have pr3: "ParseResponse ?cl \<lparr>StatusCode = 502, resp_Body = ''<html>''\<rparr> = Inl ''unsupported content type''"
    by (simp add: sample_Clients_def)
  have st1: "400 \<le> StatusCode \<lparr>StatusCode = 500, resp_Body = ''out of memory''\<rparr>" by simp
  have st2: "StatusCode \<lparr>StatusCode = 200, resp_Body = ''ok''\<rparr> < 400" by simp
  have rest: "Sprint_Unwrap ?cl (TVString ''out of memory'') = ''out of memory''"
    "ParseResponseHeaders ?cl \<lparr>StatusCode = 200, resp_Body = ''ok''\<rparr> = None"
    by (simp_all add: sample_Clients_def)
  have boom: "Invoke ?cl ?fe (sample_TaskInvocationSpec ''boom'') =
     Returned (Inr \<lparr>tis_Status = TaskInvocationStatus_FAILED, tis_Output = None,
       tis_OutputHeaders = None,
       tis_Error = Some \<lparr>Message = ''fission function error: '' @ Sprint_Unwrap ?cl (TVString ''out of memory'')\<rparr>\<rparr>)"
    by (rule Invoke_outcomes [of "sample_TaskInvocationSpec ''boom''" ?cl ?fe,
          THEN conjunct2, THEN conjunct1, rule_format, OF sample_spec_FnRef,
          THEN conjunct2, rule_format, OF v, THEN conjunct2, rule_format, OF nr(1),
          THEN conjunct2, rule_format, OF fr(1), THEN conjunct2, rule_format, OF do1,
          THEN conjunct2, rule_format, OF pr1, THEN conjunct1, rule_format, OF st1])
  have ok: "Invoke ?cl ?fe (sample_TaskInvocationSpec ''ok'') =
     Returned (Inr \<lparr>tis_Status = TaskInvocationStatus_SUCCEEDED, tis_Output = Some (TVString ''ok''),
       tis_OutputHeaders = ParseResponseHeaders ?cl \<lparr>StatusCode = 200, resp_Body = ''ok''\<rparr>, tis_Error = None\<rparr>)"
    by (rule Invoke_outcomes [of "sample_TaskInvocationSpec ''ok''" ?cl ?fe,
          THEN conjunct2, THEN conjunct1, rule_format, OF sample_spec_FnRef,
          THEN conjunct2, rule_format, OF v, THEN conjunct2, rule_format, OF nr(2),
          THEN conjunct2, rule_format, OF fr(2), THEN conjunct2, rule_format, OF do2,
          THEN conjunct2, rule_format, OF pr2, THEN conjunct2, rule_format, OF st2])
  have garbled: "Invoke ?cl ?fe (sample_TaskInvocationSpec ''garbled'') =
     Returned (Inl (''failed to parse output: '' @ ''unsupported content type''))"
    by (rule Invoke_outcomes [of "sample_TaskInvocationSpec ''garbled''" ?cl ?fe,
          THEN conjunct2, THEN conjunct1, rule_format, OF sample_spec_FnRef,
          THEN conjunct2, rule_format, OF v, THEN conjunct2, rule_format, OF nr(3),
          THEN conjunct2, rule_format, OF fr(3), THEN conjunct2, rule_format, OF do3,
          THEN conjunct1, rule_format, OF pr3])
  have down: "Invoke ?cl ?fe (sample_TaskInvocationSpec ''down'') =
     Returned (Inl (''error for reqUrl '' @ [CHR 0x27] @ createRouterURL ?fe (sample_FnRef ''down'')
                                       @ [CHR 0x27] @ '': '' @ ''connection refused''))"
    by (rule Invoke_outcomes [of "sample_TaskInvocationSpec ''down''" ?cl ?fe,
          THEN conjunct2, THEN conjunct1, rule_format, OF sample_spec_FnRef,
          THEN conjunct2, rule_format, OF v, THEN conjunct2, rule_format, OF nr(4),
          THEN conjunct2, rule_format, OF fr(4), THEN conjunct1, rule_format, OF do4])
  let ?invalid = "(sample_TaskInvocationSpec ''ok'')\<lparr>tispec_InvocationId := []\<rparr>"
  have i1: "(case tispec_Task ?invalid of None \<Rightarrow> None | Some t \<Rightarrow> ts_FnRef (task_Status t)) = Some (sample_FnRef ''ok'')"
    by (simp add: sample_TaskInvocationSpec_def)
  have i2: "validate_TaskInvocationSpec ?cl ?invalid = Some ''invocationId is required''"
    by (simp add: sample_Clients_def)
  have invalid: "Invoke ?cl ?fe ?invalid = Returned (Inl ''invocationId is required'')"
    by (rule Invoke_outcomes [of ?invalid ?cl ?fe,
          THEN conjunct2, THEN conjunct1, rule_format, OF i1, THEN conjunct1, rule_format, OF i2])
  let ?nofn = "(sample_TaskInvocationSpec ''ok'')\<lparr>tispec_Task := None\<rparr>"
  have p1: "(case tispec_Task ?nofn of None \<Rightarrow> None | Some t \<Rightarrow> ts_FnRef (task_Status t)) = None"
    by simp
  have panic: "Invoke ?cl ?fe ?nofn = Panicked"
    by (rule Invoke_outcomes [of ?nofn ?cl ?fe, THEN conjunct1, rule_format, OF p1])
  from boom ok garbled down invalid panic show ?thesis
    by (simp add: rest sample_createRouterURL)
qed

text \<open>
  The claim as stated fails: the function \<^verbatim>\<open>garbled\<close> answers with the status 502,
  an application failure, and \<^verbatim>\<open>Invoke\<close> returns an engine error and no status,
  because the body of the answer does not parse.
\<close>

theorem Invoke_status_502_unparsable_is_engine_error:
  "client_Do sample_Clients
      \<lparr>req_Method = ''POST'', req_URL = ''http://router/fission-function/garbled'', req_Inputs = Map.empty\<rparr>
     = Inr \<lparr>StatusCode = 502, resp_Body = ''<html>''\<rparr>
   \<and> (400 :: int) \<le> 502
   \<and> Invoke sample_Clients sample_FunctionEnv (sample_TaskInvocationSpec ''garbled'') =
       Returned (Inl ''failed to parse output: unsupported content type'')"
  by (simp add: Invoke_def sample_createRouterURL sample_TaskInvocationSpec_def sample_Clients_def
      defaultHTTPMethod_def)


section \<open>Properties of the invocation controller\<close>

lemma sint_DefaultMaxRuntime: "sint DefaultMaxRuntime = 600000000000"
  by (simp add: DefaultMaxRuntime_def Minute_def Second_def Millisecond_def Microsecond_def Nanosecond_def)

lemmas eval_defs = Eval_def evalTasks_def Submit_def failTask_def successTask_def runTask_def prewarmTask_def
  ID_def Workflow_of_def invocationDeadline_def ptypes_Timestamp_def Time_After_def Time_Add_def
  minValidSeconds_def maxValidSeconds_def Let_def

lemmas sample_defs = sample_Engine_def sample_Invocation_def sample_Workflow_def sample_Event_def
  sample_Evaluate_def sample_TaskInvocation_def sample_TaskSpec_def NewInvocationController_def

lemma sample_Updated: "Updated (sample_Event e) = e"
  by (simp add: sample_Event_def)

lemma sample_ID: "ID (sample_Invocation w st tasks) = ''inv''"
  by (simp add: ID_def sample_Invocation_def)

lemma sample_Workflow_of: "Workflow_of (sample_Invocation w st tasks) = w"
  by (simp add: Workflow_of_def sample_Invocation_def)

lemma sample_Status: "wist_Status (wi_Status (sample_Invocation w st tasks)) = st"
  by (simp add: sample_Invocation_def)

lemma sample_Deadline: "invocationDeadline (sample_Invocation w st tasks) = Inr 700000000000"
  by (simp add: invocationDeadline_def sample_Invocation_def ptypes_Timestamp_def Time_Add_def
      sint_DefaultMaxRuntime minValidSeconds_def maxValidSeconds_def)

lemma sample_invocationID:
  "invocationID ((NewInvocationController ident)\<lparr>errorCount := n\<rparr>) = ident"
  "invocationID (NewInvocationController ident) = ident"
  by (simp_all add: NewInvocationController_def)

text \<open>
  Claim C1 says that the check of the error count passes while the count has not exceeded
  1, and fails the invocation only for a count greater than 1. The code compares with 0:
  a count of 1 already fails the invocation. As amended: when the checks before it pass
  (the event carries the controller's invocation, its workflow is present, it is not
  terminal and its deadline has not elapsed), \<^verbatim>\<open>Eval\<close> submits the fail task and returns
  the error ``error count exceeded'' for every error count greater than 0, and goes on to
  the evaluation of the tasks for every error count of at most 0.
\<close>

theorem Eval_errorCount_threshold_zero:
  assumes "Updated ev = EntityInvocation wi" and "ID wi = invocationID c"
    and "Workflow_of wi = Some w"
    and "\<not> WorkflowInvocationStatus_Finished (wist_Status (wi_Status wi))"
    and "invocationDeadline wi = Inr d" and "\<not> Time_After now d"
  shows "(0 < errorCount c \<longrightarrow>
            Eval E now ev (c, ex) =
              (Err ''error count exceeded'', c,
               ex @ [(failTask wi ''error count exceeded'',
                      executor_Accepts E ex (failTask wi ''error count exceeded''))]))
       \<and> (errorCount c \<le> 0 \<longrightarrow> Eval E now ev (c, ex) = evalTasks E wi (c, ex))"
  using assms by (simp add: Eval_def Submit_def Let_def)

theorem Eval_errorCount_threshold_zero_witness:
  "Eval (sample_Engine True) 200000000000
      (sample_Event (EntityInvocation (sample_Invocation (Some (sample_Workflow [''a''])) WorkflowInvocationStatus_IN_PROGRESS Map.empty)))
      ((NewInvocationController ''inv'')\<lparr>errorCount := 2\<rparr>, [])
    = (Err ''error count exceeded'', (NewInvocationController ''inv'')\<lparr>errorCount := 2\<rparr>,
        [(\<lparr>et_TaskID = ''inv.fail'', et_GroupID = ''inv'',
           et_Apply = InvocationAPI_Fail ''inv'' ''error count exceeded''\<rparr>, True)])
   \<and> Eval (sample_Engine True) 200000000000
      (sample_Event (EntityInvocation (sample_Invocation (Some (sample_Workflow [''a''])) WorkflowInvocationStatus_IN_PROGRESS Map.empty)))
      (NewInvocationController ''inv'', [])
    = evalTasks (sample_Engine True)
        (sample_Invocation (Some (sample_Workflow [''a''])) WorkflowInvocationStatus_IN_PROGRESS Map.empty)
        (NewInvocationController ''inv'', [])"
proof -
  let ?wi = "sample_Invocation (Some (sample_Workflow [''a''])) WorkflowInvocationStatus_IN_PROGRESS Map.empty"
  let ?ev = "sample_Event (EntityInvocation ?wi)"
  let ?c2 = "(NewInvocationController ''inv'')\<lparr>errorCount := 2\<rparr>"
  let ?c0 = "NewInvocationController ''inv''"
  have h1: "Updated ?ev = EntityInvocation ?wi" by (rule sample_Updated)
  have h2: "ID ?wi = invocationID ?c2" "ID ?wi = invocationID ?c0"
    by (simp_all add: sample_ID sample_invocationID)
  have h3: "Workflow_of ?wi = Some (sample_Workflow [''a''])" by (rule sample_Workflow_of)
  have h4: "\<not> WorkflowInvocationStatus_Finished (wist_Status (wi_Status ?wi))"
    by (simp add: sample_Status)
  have h5: "invocationDeadline ?wi = Inr 700000000000" by (rule sample_Deadline)
  have h6: "\<not> Time_After 200000000000 700000000000" by (simp add: Time_After_def)
  have e2: "0 < errorCount ?c2" by simp
  have e0: "errorCount ?c0 \<le> 0" by (simp add: NewInvocationController_def)
  from Eval_errorCount_threshold_zero [OF h1 h2(1) h3 h4 h5 h6, of "sample_Engine True" "[]"] e2
  have a: "Eval (sample_Engine True) 200000000000 ?ev (?c2, []) =
              (Err ''error count exceeded'', ?c2,
               [] @ [(failTask ?wi ''error count exceeded'',
                      executor_Accepts (sample_Engine True) [] (failTask ?wi ''error count exceeded''))])"
    by blast
  from Eval_errorCount_threshold_zero [OF h1 h2(2) h3 h4 h5 h6, of "sample_Engine True" "[]"] e0
  have b: "Eval (sample_Engine True) 200000000000 ?ev (?c0, []) = evalTasks (sample_Engine True) ?wi (?c0, [])"
    by blast
  have t: "failTask ?wi ''error count exceeded'' = \<lparr>et_TaskID = ''inv.fail'', et_GroupID = ''inv'',
           et_Apply = InvocationAPI_Fail ''inv'' ''error count exceeded''\<rparr>"
    by (simp add: failTask_def sample_ID)
  have acc: "executor_Accepts (sample_Engine True) [] (failTask ?wi ''error count exceeded'')"
    by (simp add: sample_Engine_def)
  from a b t acc show ?thesis by simp
qed

text \<open>
  The claim as stated fails: a controller whose error count is 1 (not more than 1)
  evaluates an invocation in progress, well before its deadline, and fails it with
  ``error count exceeded''.
\<close>

theorem Eval_errorCount_one_fails:
  "\<not> (1 < errorCount ((NewInvocationController ''inv'')\<lparr>errorCount := 1\<rparr>))
   \<and> Eval (sample_Engine True) 200000000000
       (sample_Event (EntityInvocation (sample_Invocation (Some (sample_Workflow [''a''])) WorkflowInvocationStatus_IN_PROGRESS Map.empty)))
       ((NewInvocationController ''inv'')\<lparr>errorCount := 1\<rparr>, [])
    = (Err ''error count exceeded'', (NewInvocationController ''inv'')\<lparr>errorCount := 1\<rparr>,
        [(\<lparr>et_TaskID = ''inv.fail'', et_GroupID = ''inv'',
           et_Apply = InvocationAPI_Fail ''inv'' ''error count exceeded''\<rparr>, True)])"
  by (simp add: eval_defs sample_defs sint_DefaultMaxRuntime)

text \<open>
  Claim C5 says that for every invocation whose status is terminal \<^verbatim>\<open>Eval\<close> returns
  \<^verbatim>\<open>Done\<close> and submits no task. The check of the embedded workflow comes before the
  check of the status, so this holds as amended: when the event carries the controller's
  invocation, its workflow is present and its status is \<^verbatim>\<open>SUCCEEDED\<close>, \<^verbatim>\<open>FAILED\<close> or
  \<^verbatim>\<open>ABORTED\<close>, \<^verbatim>\<open>Eval\<close> returns \<^verbatim>\<open>Done\<close>, submits nothing to the executor and leaves
  the controller as it was, whatever the time and the error count.
\<close>

theorem Eval_terminal_is_Done:
  assumes "Updated ev = EntityInvocation wi" and "ID wi = invocationID c"
    and "Workflow_of wi = Some w"
    and "wist_Status (wi_Status wi) = WorkflowInvocationStatus_SUCCEEDED
       \<or> wist_Status (wi_Status wi) = WorkflowInvocationStatus_FAILED
       \<or> wist_Status (wi_Status wi) = WorkflowInvocationStatus_ABORTED"
  shows "Eval E now ev (c, ex) =
           (Done (''invocation is in a terminal state (''
              @ WorkflowInvocationStatus_String (wist_Status (wi_Status wi)) @ '')''), c, ex)"
  using assms by (auto simp add: Eval_def Let_def)

theorem Eval_terminal_is_Done_witness:
  "Eval (sample_Engine True) 800000000000
      (sample_Event (EntityInvocation (sample_Invocation (Some (sample_Workflow [''a''])) WorkflowInvocationStatus_FAILED Map.empty)))
      ((NewInvocationController ''inv'')\<lparr>errorCount := 2\<rparr>, [])
    = (Done ''invocation is in a terminal state (FAILED)'', (NewInvocationController ''inv'')\<lparr>errorCount := 2\<rparr>, [])"
proof -
  let ?wi = "sample_Invocation (Some (sample_Workflow [''a''])) WorkflowInvocationStatus_FAILED Map.empty"
  let ?ev = "sample_Event (EntityInvocation ?wi)"
  let ?c2 = "(NewInvocationController ''inv'')\<lparr>errorCount := 2\<rparr>"
  have h1: "Updated ?ev = EntityInvocation ?wi" by (rule sample_Updated)
  have h2: "ID ?wi = invocationID ?c2" by (simp add: sample_ID sample_invocationID)
  have h3: "Workflow_of ?wi = Some (sample_Workflow [''a''])" by (rule sample_Workflow_of)
  have h4: "wist_Status (wi_Status ?wi) = WorkflowInvocationStatus_SUCCEEDED
       \<or> wist_Status (wi_Status ?wi) = WorkflowInvocationStatus_FAILED
       \<or> wist_Status (wi_Status ?wi) = WorkflowInvocationStatus_ABORTED"
    by (simp add: sample_Status)
  from Eval_terminal_is_Done [OF h1 h2 h3 h4, of "sample_Engine True" 800000000000 "[]"]
  show ?thesis by (simp add: sample_Status)
qed

text \<open>
  The claim as stated fails: an invocation that has succeeded and whose embedded workflow
  is missing is not answered with \<^verbatim>\<open>Done\<close>; \<^verbatim>\<open>Eval\<close> returns an error and submits a
  task that fails the invocation.
\<close>

theorem Eval_terminal_without_workflow_fails:
  "WorkflowInvocationStatus_Finished
      (wist_Status (wi_Status (sample_Invocation None WorkflowInvocationStatus_SUCCEEDED Map.empty)))
   \<and> Eval (sample_Engine True) 200000000000
      (sample_Event (EntityInvocation (sample_Invocation None WorkflowInvocationStatus_SUCCEEDED Map.empty)))
      (NewInvocationController ''inv'', [])
    = (Err ''workflow is not present in the invocation'', NewInvocationController ''inv'',
        [(\<lparr>et_TaskID = ''inv.fail'', et_GroupID = ''inv'',
           et_Apply = InvocationAPI_Fail ''inv'' ''workflow is not present in the invocation''\<rparr>, True)])"
  by (simp add: eval_defs sample_defs)

lemma sample_Deadline_unreadable:
  "ptypes_Timestamp (wis_Deadline (wi_Spec ((sample_Invocation w st tasks)\<lparr>wi_CreatedAt := None\<rparr>))) = Inl ''timestamp: nil Timestamp''"
  "ptypes_Timestamp (wi_CreatedAt ((sample_Invocation w st tasks)\<lparr>wi_CreatedAt := None\<rparr>)) = Inl ''timestamp: nil Timestamp''"
  by (simp_all add: sample_Invocation_def ptypes_Timestamp_def)

lemma success_loop_iff:
  "success_loop tasks ids = (\<forall>i\<in>set ids. TaskInvocation_Successful (tasks i))"
  by (induction ids) auto

lemma allTasksFinished_loop_iff:
  "allTasksFinished_loop tasks ids = (\<forall>i\<in>set ids. TaskInvocation_Finished (tasks i))"
  by (induction ids) (auto simp add: TaskInvocation_Finished_def)

text \<open>
  Claim C4 says that every precondition of \<^verbatim>\<open>Eval\<close> that fires submits a fail task
  and returns the error, also when the entity is not a workflow invocation and when the
  invocation's id is not the controller's. The code returns the error in these two cases
  without submitting anything: there is no invocation of the controller's to fail. As
  amended: when the embedded workflow is missing, when neither the deadline nor the
  creation time can be read, when the deadline has elapsed and when the error count is
  greater than 0, \<^verbatim>\<open>Eval\<close> submits the fail task of the invocation with the error and
  returns the error; for an entity that is not a workflow invocation and for an
  invocation with another id it returns the error and submits nothing.
\<close>

theorem Eval_precondition_failures:
  "((\<forall>i. Updated ev \<noteq> EntityInvocation i) \<longrightarrow>
      Eval E now ev (c, ex) =
        (Err (''entity expected *types.WorkflowInvocation, but was '' @ Entity_TypeName (Updated ev)), c, ex))
   \<and> (\<forall>wi. Updated ev = EntityInvocation wi \<longrightarrow>
         (ID wi \<noteq> invocationID c \<longrightarrow>
            Eval E now ev (c, ex) =
              (Err (''invocation ID expected '' @ invocationID c @ '', but was '' @ ID wi), c, ex))
       \<and> (ID wi = invocationID c \<and> Workflow_of wi = None \<longrightarrow>
            Eval E now ev (c, ex) =
              (Err ''workflow is not present in the invocation'', c,
               snd (Submit E ex (failTask wi ''workflow is not present in the invocation''))))
       \<and> (ID wi = invocationID c \<and> Workflow_of wi \<noteq> None
            \<and> \<not> WorkflowInvocationStatus_Finished (wist_Status (wi_Status wi)) \<longrightarrow>
            ((\<exists>e. ptypes_Timestamp (wis_Deadline (wi_Spec wi)) = Inl e)
              \<and> (\<exists>e. ptypes_Timestamp (wi_CreatedAt wi) = Inl e) \<longrightarrow>
               Eval E now ev (c, ex) =
                 (Err ''failed to read deadline and createdAt'', c,
                  snd (Submit E ex (failTask wi ''failed to read deadline and createdAt''))))
          \<and> (\<forall>d. invocationDeadline wi = Inr d \<longrightarrow>
                (Time_After now d \<longrightarrow>
                   Eval E now ev (c, ex) =
                     (Err ''deadline exceeded'', c, snd (Submit E ex (failTask wi ''deadline exceeded''))))
              \<and> (\<not> Time_After now d \<and> 0 < errorCount c \<longrightarrow>
                   Eval E now ev (c, ex) =
                     (Err ''error count exceeded'', c,
                      snd (Submit E ex (failTask wi ''error count exceeded'')))))))"
proof (intro conjI allI impI)
  assume "\<forall>i. Updated ev \<noteq> EntityInvocation i"
  then show "Eval E now ev (c, ex) =
        (Err (''entity expected *types.WorkflowInvocation, but was '' @ Entity_TypeName (Updated ev)), c, ex)"
    by (cases "Updated ev") (simp_all add: Eval_def Let_def)
next
  fix wi assume "Updated ev = EntityInvocation wi" and "ID wi \<noteq> invocationID c"
  then show "Eval E now ev (c, ex) =
              (Err (''invocation ID expected '' @ invocationID c @ '', but was '' @ ID wi), c, ex)"
    by (simp add: Eval_def Let_def)
next
  fix wi assume "Updated ev = EntityInvocation wi" and "ID wi = invocationID c \<and> Workflow_of wi = None"
  then show "Eval E now ev (c, ex) =
              (Err ''workflow is not present in the invocation'', c,
               snd (Submit E ex (failTask wi ''workflow is not present in the invocation'')))"
    by (simp add: Eval_def Let_def)
next
  fix wi
  assume u: "Updated ev = EntityInvocation wi"
    and live: "ID wi = invocationID c \<and> Workflow_of wi \<noteq> None
            \<and> \<not> WorkflowInvocationStatus_Finished (wist_Status (wi_Status wi))"
    and unreadable: "(\<exists>e. ptypes_Timestamp (wis_Deadline (wi_Spec wi)) = Inl e)
              \<and> (\<exists>e. ptypes_Timestamp (wi_CreatedAt wi) = Inl e)"
  from unreadable have "invocationDeadline wi = Inl ''failed to read deadline and createdAt''"
    by (auto simp add: invocationDeadline_def)
  with u live show "Eval E now ev (c, ex) =
                 (Err ''failed to read deadline and createdAt'', c,
                  snd (Submit E ex (failTask wi ''failed to read deadline and createdAt'')))"
    by (auto simp add: Eval_def Let_def)
next
  fix wi d
  assume "Updated ev = EntityInvocation wi"
    and "ID wi = invocationID c \<and> Workflow_of wi \<noteq> None
            \<and> \<not> WorkflowInvocationStatus_Finished (wist_Status (wi_Status wi))"
    and "invocationDeadline wi = Inr d" and "Time_After now d"
  then show "Eval E now ev (c, ex) =
                     (Err ''deadline exceeded'', c, snd (Submit E ex (failTask wi ''deadline exceeded'')))"
    by (auto simp add: Eval_def Let_def)
next
  fix wi d
  assume "Updated ev = EntityInvocation wi"
    and "ID wi = invocationID c \<and> Workflow_of wi \<noteq> None
            \<and> \<not> WorkflowInvocationStatus_Finished (wist_Status (wi_Status wi))"
    and "invocationDeadline wi = Inr d" and "\<not> Time_After now d \<and> 0 < errorCount c"
  then show "Eval E now ev (c, ex) =
                     (Err ''error count exceeded'', c,
                      snd (Submit E ex (failTask wi ''error count exceeded'')))"
    by (auto simp add: Eval_def Let_def)
qed

theorem Eval_precondition_failures_witness:
  "Eval (sample_Engine True) 200000000000 (sample_Event EntityNil) (NewInvocationController ''inv'', [])
     = (Err ''entity expected *types.WorkflowInvocation, but was <nil>'', NewInvocationController ''inv'', [])
   \<and> Eval (sample_Engine True) 200000000000
       (sample_Event (EntityInvocation (sample_Invocation (Some (sample_Workflow [''a''])) WorkflowInvocationStatus_IN_PROGRESS Map.empty)))
       (NewInvocationController ''other'', [])
     = (Err ''invocation ID expected other, but was inv'', NewInvocationController ''other'', [])
   \<and> Eval (sample_Engine True) 200000000000
       (sample_Event (EntityInvocation (sample_Invocation None WorkflowInvocationStatus_IN_PROGRESS Map.empty)))
       (NewInvocationController ''inv'', [])
     = (Err ''workflow is not present in the invocation'', NewInvocationController ''inv'',
        [(\<lparr>et_TaskID = ''inv.fail'', et_GroupID = ''inv'',
           et_Apply = InvocationAPI_Fail ''inv'' ''workflow is not present in the invocation''\<rparr>, True)])
   \<and> Eval (sample_Engine True) 200000000000
       (sample_Event (EntityInvocation ((sample_Invocation (Some (sample_Workflow [''a''])) WorkflowInvocationStatus_IN_PROGRESS Map.empty)\<lparr>wi_CreatedAt := None\<rparr>)))
       (NewInvocationController ''inv'', [])
     = (Err ''failed to read deadline and createdAt'', NewInvocationController ''inv'',
        [(\<lparr>et_TaskID = ''inv.fail'', et_GroupID = ''inv'',
           et_Apply = InvocationAPI_Fail ''inv'' ''failed to read deadline and createdAt''\<rparr>, True)])
   \<and> Eval (sample_Engine True) 800000000000
       (sample_Event (EntityInvocation (sample_Invocation (Some (sample_Workflow [''a''])) WorkflowInvocationStatus_IN_PROGRESS Map.empty)))
       (NewInvocationController ''inv'', [])
     = (Err ''deadline exceeded'', NewInvocationController ''inv'',
        [(\<lparr>et_TaskID = ''inv.fail'', et_GroupID = ''inv'',
           et_Apply = InvocationAPI_Fail ''inv'' ''deadline exceeded''\<rparr>, True)])
   \<and> Eval (sample_Engine True) 200000000000
       (sample_Event (EntityInvocation (sample_Invocation (Some (sample_Workflow [''a''])) WorkflowInvocationStatus_IN_PROGRESS Map.empty)))
       ((NewInvocationController ''inv'')\<lparr>errorCount := 1\<rparr>, [])
     = (Err ''error count exceeded'', (NewInvocationController ''inv'')\<lparr>errorCount := 1\<rparr>,
        [(\<lparr>et_TaskID = ''inv.fail'', et_GroupID = ''inv'',
           et_Apply = InvocationAPI_Fail ''inv'' ''error count exceeded''\<rparr>, True)])"
proof -
  let ?E = "sample_Engine True"
  let ?wi = "sample_Invocation (Some (sample_Workflow [''a''])) WorkflowInvocationStatus_IN_PROGRESS Map.empty"
  let ?nowf = "sample_Invocation None WorkflowInvocationStatus_IN_PROGRESS Map.empty"
  let ?nots = "?wi\<lparr>wi_CreatedAt := None\<rparr>"
  let ?c = "NewInvocationController ''inv''"
  have sub: "\<And>i err. ID i = ''inv'' \<Longrightarrow> snd (Submit ?E [] (failTask i err)) =
      [(\<lparr>et_TaskID = ''inv.fail'', et_GroupID = ''inv'', et_Apply = InvocationAPI_Fail ''inv'' err\<rparr>, True)]"
    by (simp add: Submit_def failTask_def sample_Engine_def)
  have live: "ID ?wi = invocationID ?c \<and> Workflow_of ?wi \<noteq> None
            \<and> \<not> WorkflowInvocationStatus_Finished (wist_Status (wi_Status ?wi))"
    by (simp add: sample_ID sample_invocationID sample_Workflow_of sample_Status)
  have c1: "Eval ?E 200000000000 (sample_Event EntityNil) (?c, [])
     = (Err ''entity expected *types.WorkflowInvocation, but was <nil>'', ?c, [])"
    using Eval_precondition_failures [of "sample_Event EntityNil" ?E 200000000000 ?c "[]"]
    by (simp add: sample_Updated)
  have c2: "Eval ?E 200000000000 (sample_Event (EntityInvocation ?wi)) (NewInvocationController ''other'', [])
     = (Err ''invocation ID expected other, but was inv'', NewInvocationController ''other'', [])"
    using Eval_precondition_failures [of "sample_Event (EntityInvocation ?wi)" ?E 200000000000 "NewInvocationController ''other''" "[]"]
    by (simp add: sample_Updated sample_ID sample_invocationID)
  have c3: "Eval ?E 200000000000 (sample_Event (EntityInvocation ?nowf)) (?c, [])
     = (Err ''workflow is not present in the invocation'', ?c,
        snd (Submit ?E [] (failTask ?nowf ''workflow is not present in the invocation'')))"
    using Eval_precondition_failures [of "sample_Event (EntityInvocation ?nowf)" ?E 200000000000 ?c "[]"]
    by (simp add: sample_Updated sample_ID sample_invocationID sample_Workflow_of)
  have live4: "ID ?nots = invocationID ?c \<and> Workflow_of ?nots \<noteq> None
            \<and> \<not> WorkflowInvocationStatus_Finished (wist_Status (wi_Status ?nots))"
    by (simp add: ID_def Workflow_of_def sample_Invocation_def sample_invocationID)
  have c4: "Eval ?E 200000000000 (sample_Event (EntityInvocation ?nots)) (?c, [])
     = (Err ''failed to read deadline and createdAt'', ?c,
        snd (Submit ?E [] (failTask ?nots ''failed to read deadline and createdAt'')))"
    using Eval_precondition_failures [of "sample_Event (EntityInvocation ?nots)" ?E 200000000000 ?c "[]"]
      live4 sample_Deadline_unreadable [of "Some (sample_Workflow [''a''])" WorkflowInvocationStatus_IN_PROGRESS Map.empty]
    by (simp add: sample_Updated)
  have c5: "Eval ?E 800000000000 (sample_Event (EntityInvocation ?wi)) (?c, [])
     = (Err ''deadline exceeded'', ?c, snd (Submit ?E [] (failTask ?wi ''deadline exceeded'')))"
    using Eval_precondition_failures [of "sample_Event (EntityInvocation ?wi)" ?E 800000000000 ?c "[]"] live
    by (simp add: sample_Updated sample_Deadline Time_After_def)
  have c6: "Eval ?E 200000000000 (sample_Event (EntityInvocation ?wi)) (?c\<lparr>errorCount := 1\<rparr>, [])
     = (Err ''error count exceeded'', ?c\<lparr>errorCount := 1\<rparr>, snd (Submit ?E [] (failTask ?wi ''error count exceeded'')))"
    using Eval_precondition_failures [of "sample_Event (EntityInvocation ?wi)" ?E 200000000000 "?c\<lparr>errorCount := 1\<rparr>" "[]"] live
    by (simp add: sample_Updated sample_Deadline Time_After_def sample_invocationID)
  have ids: "ID ?wi = ''inv''" "ID ?nowf = ''inv''" "ID ?nots = ''inv''"
    by (simp_all add: ID_def sample_Invocation_def)
  from c1 c2 c3 c4 c5 c6 show ?thesis
    by (simp only: sub [OF ids(1)] sub [OF ids(2)] sub [OF ids(3)] simp_thms)
qed

text \<open>
  The claim as stated fails: for an event that carries a workflow, and for one that
  carries the invocation of another controller, \<^verbatim>\<open>Eval\<close> returns the error and the
  executor has received no task.
\<close>

theorem Eval_wrong_entity_submits_nothing:
  "Eval (sample_Engine True) 200000000000 (sample_Event (EntityWorkflow (sample_Workflow [''a''])))
      (NewInvocationController ''inv'', [])
     = (Err ''entity expected *types.WorkflowInvocation, but was *types.Workflow'', NewInvocationController ''inv'', [])
   \<and> Eval (sample_Engine True) 200000000000
       (sample_Event (EntityInvocation (sample_Invocation (Some (sample_Workflow [''a''])) WorkflowInvocationStatus_IN_PROGRESS Map.empty)))
       (NewInvocationController ''other'', [])
     = (Err ''invocation ID expected other, but was inv'', NewInvocationController ''other'', [])"
  by (simp add: eval_defs sample_defs)

text \<open>
  Claim C6 says that for every \<^verbatim>\<open>Eval\<close> where the deadline has elapsed the invocation is
  failed with ``deadline exceeded''. The deadline is checked fourth, so this holds as
  amended: when \<^verbatim>\<open>Eval\<close> reaches the check of the deadline (the event carries the
  controller's invocation, its workflow is present and it is not terminal) and the
  deadline has elapsed, where the deadline is the one of the spec if it is valid and
  otherwise the creation time plus 10 minutes, \<^verbatim>\<open>Eval\<close> submits the fail task with
  the error ``deadline exceeded'' and returns that error. The controller is unchanged and
  the fail task is the only submission; the result is the same for every scheduler, which
  is never called.
\<close>

theorem Eval_deadline_exceeded:
  assumes "Updated ev = EntityInvocation wi" and "ID wi = invocationID c"
    and "Workflow_of wi = Some w"
    and "\<not> WorkflowInvocationStatus_Finished (wist_Status (wi_Status wi))"
    and "ptypes_Timestamp (wis_Deadline (wi_Spec wi)) = Inr d
       \<or> ((\<exists>e. ptypes_Timestamp (wis_Deadline (wi_Spec wi)) = Inl e)
           \<and> (\<exists>createdAt. ptypes_Timestamp (wi_CreatedAt wi) = Inr createdAt
                 \<and> d = createdAt + 10 * 60 * 1000000000))"
    and "d < now"
  shows "Eval E now ev (c, ex) =
           (Err ''deadline exceeded'', c,
            ex @ [(failTask wi ''deadline exceeded'', executor_Accepts E ex (failTask wi ''deadline exceeded''))])
       \<and> (\<forall>sched. Eval (E\<lparr>scheduler_Evaluate := sched\<rparr>) now ev (c, ex) = Eval E now ev (c, ex))"
proof -
  from assms(5) have dl: "invocationDeadline wi = Inr d"
    by (auto simp add: invocationDeadline_def Time_Add_def sint_DefaultMaxRuntime)
  with assms(1-4,6) show ?thesis
    by (simp add: Eval_def Let_def Submit_def Time_After_def)
qed

theorem Eval_deadline_exceeded_witness:
  "Eval (sample_Engine True) 800000000000
       (sample_Event (EntityInvocation (sample_Invocation (Some (sample_Workflow [''a''])) WorkflowInvocationStatus_IN_PROGRESS Map.empty)))
       (NewInvocationController ''inv'', [])
     = (Err ''deadline exceeded'', NewInvocationController ''inv'',
        [(\<lparr>et_TaskID = ''inv.fail'', et_GroupID = ''inv'',
           et_Apply = InvocationAPI_Fail ''inv'' ''deadline exceeded''\<rparr>, True)])
   \<and> Eval ((sample_Engine True)\<lparr>scheduler_Evaluate := (\<lambda>i s. Inl ''scheduler down'')\<rparr>) 800000000000
       (sample_Event (EntityInvocation (sample_Invocation (Some (sample_Workflow [''a''])) WorkflowInvocationStatus_IN_PROGRESS Map.empty)))
       (NewInvocationController ''inv'', [])
     = (Err ''deadline exceeded'', NewInvocationController ''inv'',
        [(\<lparr>et_TaskID = ''inv.fail'', et_GroupID = ''inv'',
           et_Apply = InvocationAPI_Fail ''inv'' ''deadline exceeded''\<rparr>, True)])"
proof -
  let ?E = "sample_Engine True"
  let ?wi = "sample_Invocation (Some (sample_Workflow [''a''])) WorkflowInvocationStatus_IN_PROGRESS Map.empty"
  let ?ev = "sample_Event (EntityInvocation ?wi)"
  let ?c = "NewInvocationController ''inv''"
  have h1: "Updated ?ev = EntityInvocation ?wi" by (rule sample_Updated)
  have h2: "ID ?wi = invocationID ?c" by (simp add: sample_ID sample_invocationID)
  have h3: "Workflow_of ?wi = Some (sample_Workflow [''a''])" by (rule sample_Workflow_of)
  have h4: "\<not> WorkflowInvocationStatus_Finished (wist_Status (wi_Status ?wi))"
    by (simp add: sample_Status)
  have h5: "ptypes_Timestamp (wis_Deadline (wi_Spec ?wi)) = Inr 700000000000
       \<or> ((\<exists>e. ptypes_Timestamp (wis_Deadline (wi_Spec ?wi)) = Inl e)
           \<and> (\<exists>createdAt. ptypes_Timestamp (wi_CreatedAt ?wi) = Inr createdAt
                 \<and> 700000000000 = createdAt + 10 * 60 * 1000000000))"
    by (simp add: sample_Invocation_def ptypes_Timestamp_def minValidSeconds_def maxValidSeconds_def)
  have h6: "(700000000000 :: int) < 800000000000" by simp
  note T = Eval_deadline_exceeded [OF h1 h2 h3 h4 h5 h6, of ?E "[]"]
  have t: "failTask ?wi ''deadline exceeded'' = \<lparr>et_TaskID = ''inv.fail'', et_GroupID = ''inv'',
           et_Apply = InvocationAPI_Fail ''inv'' ''deadline exceeded''\<rparr>"
    by (simp add: failTask_def sample_ID)
  have acc: "executor_Accepts ?E [] (failTask ?wi ''deadline exceeded'')"
    by (simp add: sample_Engine_def)
  from T have a: "Eval ?E 800000000000 ?ev (?c, []) =
           (Err ''deadline exceeded'', ?c,
            [] @ [(failTask ?wi ''deadline exceeded'', executor_Accepts ?E [] (failTask ?wi ''deadline exceeded''))])"
    by (rule conjunct1)
  from T have b: "Eval (?E\<lparr>scheduler_Evaluate := (\<lambda>i s. Inl ''scheduler down'')\<rparr>) 800000000000 ?ev (?c, [])
      = Eval ?E 800000000000 ?ev (?c, [])"
    by blast
  from a b t acc show ?thesis by simp
qed

text \<open>
  The claim as stated fails: an invocation that was aborted is evaluated after its
  deadline; \<^verbatim>\<open>Eval\<close> returns \<^verbatim>\<open>Done\<close> and submits nothing, so the invocation is not
  failed with ``deadline exceeded''.
\<close>

theorem Eval_deadline_elapsed_terminal_is_Done:
  "invocationDeadline (sample_Invocation (Some (sample_Workflow [''a''])) WorkflowInvocationStatus_ABORTED Map.empty)
     = Inr 700000000000
   \<and> Time_After 800000000000 700000000000
   \<and> Eval (sample_Engine True) 800000000000
       (sample_Event (EntityInvocation (sample_Invocation (Some (sample_Workflow [''a''])) WorkflowInvocationStatus_ABORTED Map.empty)))
       (NewInvocationController ''inv'', [])
     = (Done ''invocation is in a terminal state (ABORTED)'', NewInvocationController ''inv'', [])"
  by (simp add: eval_defs sample_defs sint_DefaultMaxRuntime)

text \<open>
  Claim C7 says that for every invocation that is not terminal and whose workflow has no
  tasks and no output task \<^verbatim>\<open>Eval\<close> submits the successful completion. The checks of
  the deadline and of the error count come first, so this holds as amended: for an
  invocation that is not terminal and passes the checks of \<^verbatim>\<open>Eval\<close> (it is the
  controller's, the deadline has not elapsed, the error count is not above 0), whose
  workflow has no tasks and no output task, all tasks count as finished, the output
  determined is nil with nil headers, and \<^verbatim>\<open>Eval\<close> submits the task that completes
  the invocation with nil output and nil output headers and returns \<^verbatim>\<open>Success\<close>.
\<close>

theorem Eval_empty_workflow_succeeds:
  assumes "Updated ev = EntityInvocation wi" and "ID wi = invocationID c"
    and "Workflow_of wi = Some w"
    and "wfs_Tasks (wf_Spec w) = []" and "wfs_OutputTask (wf_Spec w) = []"
    and "\<not> WorkflowInvocationStatus_Finished (wist_Status (wi_Status wi))"
    and "invocationDeadline wi = Inr d" and "\<not> Time_After now d"
    and "errorCount c \<le> 0"
  shows "allTasksFinished wi
       \<and> determineTaskOutput E wi = Inr (None, None)
       \<and> Eval E now ev (c, ex) =
           (Success ''all tasks of the invocation have completed'', c,
            ex @ [(\<lparr>et_TaskID = ID wi @ ''.success'', et_GroupID = ID wi,
                    et_Apply = InvocationAPI_Complete (ID wi) None None\<rparr>,
                   executor_Accepts E ex (successTask wi None None))])"
proof -
  from assms(3,4) have t: "Tasks wi = []" by (simp add: Tasks_def)
  from assms(3,5) have o: "OutputTask_of wi = []" by (simp add: OutputTask_of_def)
  have f: "allTasksFinished wi" by (simp add: allTasksFinished_def t)
  have d: "determineTaskOutput E wi = Inr (None, None)"
    by (simp add: determineTaskOutput_def t o)
  from assms f d show ?thesis
    by (simp add: Eval_def evalTasks_def Let_def Submit_def successTask_def)
qed

theorem Eval_empty_workflow_succeeds_witness:
  "Eval (sample_Engine True) 200000000000
       (sample_Event (EntityInvocation (sample_Invocation (Some (sample_Workflow [])) WorkflowInvocationStatus_SCHEDULED Map.empty)))
       (NewInvocationController ''inv'', [])
     = (Success ''all tasks of the invocation have completed'', NewInvocationController ''inv'',
        [(\<lparr>et_TaskID = ''inv.success'', et_GroupID = ''inv'',
           et_Apply = InvocationAPI_Complete ''inv'' None None\<rparr>, True)])"
proof -
  let ?E = "sample_Engine True"
  let ?wi = "sample_Invocation (Some (sample_Workflow [])) WorkflowInvocationStatus_SCHEDULED Map.empty"
  let ?ev = "sample_Event (EntityInvocation ?wi)"
  let ?c = "NewInvocationController ''inv''"
  have h1: "Updated ?ev = EntityInvocation ?wi" by (rule sample_Updated)
  have h2: "ID ?wi = invocationID ?c" by (simp add: sample_ID sample_invocationID)
  have h3: "Workflow_of ?wi = Some (sample_Workflow [])" by (rule sample_Workflow_of)
  have h4: "wfs_Tasks (wf_Spec (sample_Workflow [])) = []" by (simp add: sample_Workflow_def)
  have h5: "wfs_OutputTask (wf_Spec (sample_Workflow [])) = []" by (simp add: sample_Workflow_def)
  have h6: "\<not> WorkflowInvocationStatus_Finished (wist_Status (wi_Status ?wi))"
    by (simp add: sample_Status)
  have h7: "invocationDeadline ?wi = Inr 700000000000" by (rule sample_Deadline)
  have h8: "\<not> Time_After 200000000000 700000000000" by (simp add: Time_After_def)
  have h9: "errorCount ?c \<le> 0" by (simp add: NewInvocationController_def)
  from Eval_empty_workflow_succeeds [OF h1 h2 h3 h4 h5 h6 h7 h8 h9, of ?E "[]"]
  show ?thesis by (simp add: sample_ID sample_Engine_def)
qed

text \<open>
  The claim as stated fails: an invocation that is not terminal, with no tasks and no
  output task, is evaluated after its deadline; \<^verbatim>\<open>Eval\<close> submits the task that fails
  it with ``deadline exceeded'', not a completion.
\<close>

theorem Eval_empty_workflow_past_deadline_fails:
  "\<not> WorkflowInvocationStatus_Finished
        (wist_Status (wi_Status (sample_Invocation (Some (sample_Workflow [])) WorkflowInvocationStatus_SCHEDULED Map.empty)))
   \<and> Tasks (sample_Invocation (Some (sample_Workflow [])) WorkflowInvocationStatus_SCHEDULED Map.empty) = []
   \<and> OutputTask_of (sample_Invocation (Some (sample_Workflow [])) WorkflowInvocationStatus_SCHEDULED Map.empty) = []
   \<and> Eval (sample_Engine True) 800000000000
       (sample_Event (EntityInvocation (sample_Invocation (Some (sample_Workflow [])) WorkflowInvocationStatus_SCHEDULED Map.empty)))
       (NewInvocationController ''inv'', [])
     = (Err ''deadline exceeded'', NewInvocationController ''inv'',
        [(\<lparr>et_TaskID = ''inv.fail'', et_GroupID = ''inv'',
           et_Apply = InvocationAPI_Fail ''inv'' ''deadline exceeded''\<rparr>, True)])"
  by (simp add: eval_defs sample_defs sint_DefaultMaxRuntime Tasks_def OutputTask_of_def)

text \<open>
  Claim C8 says that for every invocation whose tasks have all finished \<^verbatim>\<open>Eval\<close>
  fails it with ``one or more tasks in the workflow have failed'' if a task did not
  succeed and completes it otherwise. The checks of \<^verbatim>\<open>Eval\<close> come first, so this
  holds as amended: for an invocation that passes the checks of \<^verbatim>\<open>Eval\<close> (it is the
  controller's, its workflow is present, it is not terminal, the deadline has not elapsed,
  the error count is not above 0) and whose tasks have all finished: if one of them is
  not successful, \<^verbatim>\<open>Eval\<close> submits the fail task with exactly the error ``one or
  more tasks in the workflow have failed'' (no output is passed) and returns that error;
  if all are successful it submits the task that completes the invocation, with the
  output and output headers of the output task when one is set and nil otherwise, and
  returns \<^verbatim>\<open>Success\<close>.
\<close>

theorem Eval_all_tasks_finished:
  assumes "Updated ev = EntityInvocation wi" and "ID wi = invocationID c"
    and "Workflow_of wi = Some w"
    and "\<not> WorkflowInvocationStatus_Finished (wist_Status (wi_Status wi))"
    and "invocationDeadline wi = Inr d" and "\<not> Time_After now d"
    and "errorCount c \<le> 0"
    and "\<forall>i\<in>set (Tasks wi). TaskInvocation_Finished (wist_Tasks (wi_Status wi) i)"
  shows "((\<exists>i\<in>set (Tasks wi). \<not> TaskInvocation_Successful (wist_Tasks (wi_Status wi) i)) \<longrightarrow>
            Eval E now ev (c, ex) =
              (Err ''one or more tasks in the workflow have failed'', c,
               ex @ [(\<lparr>et_TaskID = ID wi @ ''.fail'', et_GroupID = ID wi,
                       et_Apply = InvocationAPI_Fail (ID wi) ''one or more tasks in the workflow have failed''\<rparr>,
                      executor_Accepts E ex (failTask wi ''one or more tasks in the workflow have failed''))]))
       \<and> ((\<forall>i\<in>set (Tasks wi). TaskInvocation_Successful (wist_Tasks (wi_Status wi) i)) \<longrightarrow>
            Eval E now ev (c, ex) =
              (Success ''all tasks of the invocation have completed'', c,
               ex @ [(\<lparr>et_TaskID = ID wi @ ''.success'', et_GroupID = ID wi,
                       et_Apply = InvocationAPI_Complete (ID wi)
                         (if wfs_OutputTask (wf_Spec w) = [] then None
                          else ResolveTaskOutput E (wfs_OutputTask (wf_Spec w)) wi)
                         (if wfs_OutputTask (wf_Spec w) = [] then None
                          else ResolveTaskOutputHeaders E (wfs_OutputTask (wf_Spec w)) wi)\<rparr>,
                      executor_Accepts E ex (successTask wi
                         (if wfs_OutputTask (wf_Spec w) = [] then None
                          else ResolveTaskOutput E (wfs_OutputTask (wf_Spec w)) wi)
                         (if wfs_OutputTask (wf_Spec w) = [] then None
                          else ResolveTaskOutputHeaders E (wfs_OutputTask (wf_Spec w)) wi)))]))"
proof -
  from assms(8) have f: "allTasksFinished wi"
    by (simp add: allTasksFinished_def allTasksFinished_loop_iff)
  from assms(3) have o: "OutputTask_of wi = wfs_OutputTask (wf_Spec w)"
    by (simp add: OutputTask_of_def)
  have e: "Eval E now ev (c, ex) = evalTasks E wi (c, ex)"
    using assms(1-7) by (simp add: Eval_def Let_def)
  show ?thesis
  proof (intro conjI impI)
    assume "\<exists>i\<in>set (Tasks wi). \<not> TaskInvocation_Successful (wist_Tasks (wi_Status wi) i)"
    then have "\<not> success_loop (wist_Tasks (wi_Status wi)) (Tasks wi)"
      by (simp add: success_loop_iff)
    then have "determineTaskOutput E wi = Inl ''one or more tasks in the workflow have failed''"
      by (simp add: determineTaskOutput_def Let_def split: prod.splits)
    with f e show "Eval E now ev (c, ex) =
              (Err ''one or more tasks in the workflow have failed'', c,
               ex @ [(\<lparr>et_TaskID = ID wi @ ''.fail'', et_GroupID = ID wi,
                       et_Apply = InvocationAPI_Fail (ID wi) ''one or more tasks in the workflow have failed''\<rparr>,
                      executor_Accepts E ex (failTask wi ''one or more tasks in the workflow have failed''))])"
      by (simp add: evalTasks_def Let_def Submit_def failTask_def)
  next
    assume "\<forall>i\<in>set (Tasks wi). TaskInvocation_Successful (wist_Tasks (wi_Status wi) i)"
    then have "success_loop (wist_Tasks (wi_Status wi)) (Tasks wi)"
      by (simp add: success_loop_iff)
    then have "determineTaskOutput E wi =
        Inr (if wfs_OutputTask (wf_Spec w) = [] then None
             else ResolveTaskOutput E (wfs_OutputTask (wf_Spec w)) wi,
             if wfs_OutputTask (wf_Spec w) = [] then None
             else ResolveTaskOutputHeaders E (wfs_OutputTask (wf_Spec w)) wi)"
      by (simp add: determineTaskOutput_def Let_def o)
    with f e show "Eval E now ev (c, ex) =
              (Success ''all tasks of the invocation have completed'', c,
               ex @ [(\<lparr>et_TaskID = ID wi @ ''.success'', et_GroupID = ID wi,
                       et_Apply = InvocationAPI_Complete (ID wi)
                         (if wfs_OutputTask (wf_Spec w) = [] then None
                          else ResolveTaskOutput E (wfs_OutputTask (wf_Spec w)) wi)
                         (if wfs_OutputTask (wf_Spec w) = [] then None
                          else ResolveTaskOutputHeaders E (wfs_OutputTask (wf_Spec w)) wi)\<rparr>,
                      executor_Accepts E ex (successTask wi
                         (if wfs_OutputTask (wf_Spec w) = [] then None
                          else ResolveTaskOutput E (wfs_OutputTask (wf_Spec w)) wi)
                         (if wfs_OutputTask (wf_Spec w) = [] then None
                          else ResolveTaskOutputHeaders E (wfs_OutputTask (wf_Spec w)) wi)))])"
      by (simp add: evalTasks_def Let_def Submit_def successTask_def)
  qed
qed

theorem Eval_all_tasks_finished_witness:
  "Eval (sample_Engine True) 200000000000
       (sample_Event (EntityInvocation (sample_Invocation (Some (sample_Workflow_with_output [''a'', ''b''] ''a''))
          WorkflowInvocationStatus_IN_PROGRESS
          [''a'' \<mapsto> sample_TaskInvocation ''a'' (sample_TaskSpec None) TaskInvocationStatus_SUCCEEDED (Some (TVString ''ok'')),
           ''b'' \<mapsto> sample_TaskInvocation ''b'' (sample_TaskSpec None) TaskInvocationStatus_FAILED None])))
       (NewInvocationController ''inv'', [])
     = (Err ''one or more tasks in the workflow have failed'', NewInvocationController ''inv'',
        [(\<lparr>et_TaskID = ''inv.fail'', et_GroupID = ''inv'',
           et_Apply = InvocationAPI_Fail ''inv'' ''one or more tasks in the workflow have failed''\<rparr>, True)])
   \<and> Eval (sample_Engine True) 200000000000
       (sample_Event (EntityInvocation (sample_Invocation (Some (sample_Workflow_with_output [''a'', ''b''] ''a''))
          WorkflowInvocationStatus_IN_PROGRESS
          [''a'' \<mapsto> sample_TaskInvocation ''a'' (sample_TaskSpec None) TaskInvocationStatus_SUCCEEDED (Some (TVString ''ok'')),
           ''b'' \<mapsto> sample_TaskInvocation ''b'' (sample_TaskSpec None) TaskInvocationStatus_SUCCEEDED None])))
       (NewInvocationController ''inv'', [])
     = (Success ''all tasks of the invocation have completed'', NewInvocationController ''inv'',
        [(\<lparr>et_TaskID = ''inv.success'', et_GroupID = ''inv'',
           et_Apply = InvocationAPI_Complete ''inv'' (Some (TVString ''ok'')) None\<rparr>, True)])"
proof -
  let ?E = "sample_Engine True"
  let ?w = "sample_Workflow_with_output [''a'', ''b''] ''a''"
  let ?bad = "sample_Invocation (Some ?w) WorkflowInvocationStatus_IN_PROGRESS
          [''a'' \<mapsto> sample_TaskInvocation ''a'' (sample_TaskSpec None) TaskInvocationStatus_SUCCEEDED (Some (TVString ''ok'')),
           ''b'' \<mapsto> sample_TaskInvocation ''b'' (sample_TaskSpec None) TaskInvocationStatus_FAILED None]"
  let ?good = "sample_Invocation (Some ?w) WorkflowInvocationStatus_IN_PROGRESS
          [''a'' \<mapsto> sample_TaskInvocation ''a'' (sample_TaskSpec None) TaskInvocationStatus_SUCCEEDED (Some (TVString ''ok'')),
           ''b'' \<mapsto> sample_TaskInvocation ''b'' (sample_TaskSpec None) TaskInvocationStatus_SUCCEEDED None]"
  let ?c = "NewInvocationController ''inv''"
  have tasks: "\<And>st ts. Tasks (sample_Invocation (Some ?w) st ts) = [''a'', ''b'']"
    by (simp add: Tasks_def sample_Workflow_of sample_Workflow_with_output_def)
  have out: "wfs_OutputTask (wf_Spec ?w) = ''a''" by (simp add: sample_Workflow_with_output_def)
  have h1: "Updated (sample_Event (EntityInvocation ?bad)) = EntityInvocation ?bad"
    "Updated (sample_Event (EntityInvocation ?good)) = EntityInvocation ?good"
    by (rule sample_Updated)+
  have h2: "ID ?bad = invocationID ?c" "ID ?good = invocationID ?c"
    by (simp_all add: sample_ID sample_invocationID)
  have h3: "Workflow_of ?bad = Some ?w" "Workflow_of ?good = Some ?w" by (rule sample_Workflow_of)+
  have h4: "\<not> WorkflowInvocationStatus_Finished (wist_Status (wi_Status ?bad))"
    "\<not> WorkflowInvocationStatus_Finished (wist_Status (wi_Status ?good))"
    by (simp_all add: sample_Status)
  have h5: "invocationDeadline ?bad = Inr 700000000000" "invocationDeadline ?good = Inr 700000000000"
    by (rule sample_Deadline)+
  have h6: "\<not> Time_After 200000000000 700000000000" by (simp add: Time_After_def)
  have h7: "errorCount ?c \<le> 0" by (simp add: NewInvocationController_def)
  have h8: "\<forall>i\<in>set (Tasks ?bad). TaskInvocation_Finished (wist_Tasks (wi_Status ?bad) i)"
    "\<forall>i\<in>set (Tasks ?good). TaskInvocation_Finished (wist_Tasks (wi_Status ?good) i)"
    by (simp_all add: tasks) (simp_all add: sample_Invocation_def sample_TaskInvocation_def TaskInvocation_Finished_def)
  have failing: "\<exists>i\<in>set (Tasks ?bad). \<not> TaskInvocation_Successful (wist_Tasks (wi_Status ?bad) i)"
    by (simp add: tasks) (simp add: sample_Invocation_def sample_TaskInvocation_def TaskInvocation_Successful_def)
  have succeeding: "\<forall>i\<in>set (Tasks ?good). TaskInvocation_Successful (wist_Tasks (wi_Status ?good) i)"
    by (simp add: tasks) (simp add: sample_Invocation_def sample_TaskInvocation_def TaskInvocation_Successful_def)
  have r: "ResolveTaskOutput ?E ''a'' ?good = Some (TVString ''ok'')"
    "ResolveTaskOutputHeaders ?E ''a'' ?good = None"
    by (simp_all add: sample_Engine_def sample_Invocation_def sample_TaskInvocation_def)
  have acc: "\<And>ex t. executor_Accepts ?E ex t" by (simp add: sample_Engine_def)
  from Eval_all_tasks_finished [OF h1(1) h2(1) h3(1) h4(1) h5(1) h6 h7 h8(1), of ?E "[]"] failing
  have a: "Eval ?E 200000000000 (sample_Event (EntityInvocation ?bad)) (?c, []) =
              (Err ''one or more tasks in the workflow have failed'', ?c,
               [] @ [(\<lparr>et_TaskID = ID ?bad @ ''.fail'', et_GroupID = ID ?bad,
                       et_Apply = InvocationAPI_Fail (ID ?bad) ''one or more tasks in the workflow have failed''\<rparr>,
                      executor_Accepts ?E [] (failTask ?bad ''one or more tasks in the workflow have failed''))])"
    by blast
  from Eval_all_tasks_finished [OF h1(2) h2(2) h3(2) h4(2) h5(2) h6 h7 h8(2), of ?E "[]"] succeeding
  have b: "Eval ?E 200000000000 (sample_Event (EntityInvocation ?good)) (?c, []) =
              (Success ''all tasks of the invocation have completed'', ?c,
               [] @ [(\<lparr>et_TaskID = ID ?good @ ''.success'', et_GroupID = ID ?good,
                       et_Apply = InvocationAPI_Complete (ID ?good)
                         (if wfs_OutputTask (wf_Spec ?w) = [] then None
                          else ResolveTaskOutput ?E (wfs_OutputTask (wf_Spec ?w)) ?good)
                         (if wfs_OutputTask (wf_Spec ?w) = [] then None
                          else ResolveTaskOutputHeaders ?E (wfs_OutputTask (wf_Spec ?w)) ?good)\<rparr>,
                      executor_Accepts ?E [] (successTask ?good
                         (if wfs_OutputTask (wf_Spec ?w) = [] then None
                          else ResolveTaskOutput ?E (wfs_OutputTask (wf_Spec ?w)) ?good)
                         (if wfs_OutputTask (wf_Spec ?w) = [] then None
                          else ResolveTaskOutputHeaders ?E (wfs_OutputTask (wf_Spec ?w)) ?good)))])"
    by blast
  from a b show ?thesis
    by (simp add: sample_ID acc out r)
qed

text \<open>
  The claim as stated fails: an invocation whose tasks have all succeeded is evaluated
  after its deadline and is failed with ``deadline exceeded'', not completed; with one
  failed task it is failed with ``deadline exceeded'' too, not with the message of the
  claim.
\<close>

theorem Eval_all_tasks_finished_past_deadline:
  "allTasksFinished (sample_Invocation (Some (sample_Workflow [''a'', ''b''])) WorkflowInvocationStatus_IN_PROGRESS
          [''a'' \<mapsto> sample_TaskInvocation ''a'' (sample_TaskSpec None) TaskInvocationStatus_SUCCEEDED (Some (TVString ''ok'')),
           ''b'' \<mapsto> sample_TaskInvocation ''b'' (sample_TaskSpec None) TaskInvocationStatus_SUCCEEDED None])
   \<and> TaskInvocation_Successful (Some (sample_TaskInvocation ''a'' (sample_TaskSpec None) TaskInvocationStatus_SUCCEEDED (Some (TVString ''ok''))))
   \<and> TaskInvocation_Successful (Some (sample_TaskInvocation ''b'' (sample_TaskSpec None) TaskInvocationStatus_SUCCEEDED None))
   \<and> Eval (sample_Engine True) 800000000000
       (sample_Event (EntityInvocation (sample_Invocation (Some (sample_Workflow [''a'', ''b''])) WorkflowInvocationStatus_IN_PROGRESS
          [''a'' \<mapsto> sample_TaskInvocation ''a'' (sample_TaskSpec None) TaskInvocationStatus_SUCCEEDED (Some (TVString ''ok'')),
           ''b'' \<mapsto> sample_TaskInvocation ''b'' (sample_TaskSpec None) TaskInvocationStatus_SUCCEEDED None])))
       (NewInvocationController ''inv'', [])
     = (Err ''deadline exceeded'', NewInvocationController ''inv'',
        [(\<lparr>et_TaskID = ''inv.fail'', et_GroupID = ''inv'',
           et_Apply = InvocationAPI_Fail ''inv'' ''deadline exceeded''\<rparr>, True)])
   \<and> Eval (sample_Engine True) 800000000000
       (sample_Event (EntityInvocation (sample_Invocation (Some (sample_Workflow [''a'', ''b''])) WorkflowInvocationStatus_IN_PROGRESS
          [''a'' \<mapsto> sample_TaskInvocation ''a'' (sample_TaskSpec None) TaskInvocationStatus_SUCCEEDED (Some (TVString ''ok'')),
           ''b'' \<mapsto> sample_TaskInvocation ''b'' (sample_TaskSpec None) TaskInvocationStatus_FAILED None])))
       (NewInvocationController ''inv'', [])
     = (Err ''deadline exceeded'', NewInvocationController ''inv'',
        [(\<lparr>et_TaskID = ''inv.fail'', et_GroupID = ''inv'',
           et_Apply = InvocationAPI_Fail ''inv'' ''deadline exceeded''\<rparr>, True)])"
  by (simp add: eval_defs sample_defs sint_DefaultMaxRuntime Tasks_def allTasksFinished_def
      TaskInvocation_Finished_def TaskInvocation_Successful_def)

text \<open>
  Whatever the executor answers, the scheduling part of \<^verbatim>\<open>Eval\<close> leaves every run
  task of the schedule in \<^verbatim>\<open>sheduledTasks\<close>: the ids are added before the submissions,
  and the submissions change \<^verbatim>\<open>startedTasks\<close> only.
\<close>

lemma markScheduled_eq: "markScheduled actions scheduled = scheduled \<union> rta_TaskID ` set actions"
  by (induction actions arbitrary: scheduled) auto

lemma sheduledTasks_submitRunTasks:
  "sheduledTasks (fst (submitRunTasks E wi actions cx)) = sheduledTasks (fst cx)"
  by (induction actions arbitrary: cx) (simp_all add: Let_def split: prod.splits)

lemma evalTasks_sheduledTasks:
  assumes "\<not> allTasksFinished wi" and "scheduler_Evaluate E wi (sheduledTasks c) = Inr schedule"
    and "Abort schedule = None"
  shows "sheduledTasks (fst (snd (evalTasks E wi (c, ex)))) = sheduledTasks c \<union> rta_TaskID ` set (RunTasks schedule)"
proof -
  let ?c1 = "c\<lparr>sheduledTasks := markScheduled (RunTasks schedule) (sheduledTasks c)\<rparr>"
  let ?ex1 = "submitPrepareTasks E wi (PrepareTasks schedule) ex"
  have "sheduledTasks (fst (submitRunTasks E wi (RunTasks schedule) (?c1, ?ex1))) = sheduledTasks ?c1"
    by (simp add: sheduledTasks_submitRunTasks)
  with assms show ?thesis
    by (simp add: evalTasks_def Let_def markScheduled_eq split: prod.splits)
qed

text \<open>
  Claim C3 says that a run task that the executor rejects stays eligible: the set of
  scheduled task ids handed to the scheduler at the next \<^verbatim>\<open>Eval\<close> does not exclude it.
  The code marks every run task as scheduled before it submits any, records an accepted
  submission in \<^verbatim>\<open>startedTasks\<close> only, and removes an id from \<^verbatim>\<open>sheduledTasks\<close>
  only in \<^verbatim>\<open>execTask\<close>, which a rejected task never runs. With an executor whose
  queue is full, the first \<^verbatim>\<open>Eval\<close> leaves task \<^verbatim>\<open>a\<close> rejected and in
  \<^verbatim>\<open>sheduledTasks\<close>; at the next \<^verbatim>\<open>Eval\<close>, with room in the executor, a scheduler
  that reports what it is given finds \<^verbatim>\<open>a\<close> in the set of scheduled ids, and the
  sample scheduler schedules nothing: the task is not submitted again.
\<close>

theorem Eval_rejected_run_task_stays_scheduled:
  "Eval (sample_Engine False) 200000000000
       (sample_Event (EntityInvocation (sample_Invocation (Some (sample_Workflow [''a''])) WorkflowInvocationStatus_IN_PROGRESS Map.empty)))
       (NewInvocationController ''inv'', [])
     = (Success ''scheduled execution of 1 tasks and preparation of 0 tasks'',
        \<lparr>invocationID = ''inv'', startedTasks = {}, sheduledTasks = {''a''}, errorCount = 0\<rparr>,
        [(runTask (sample_Invocation (Some (sample_Workflow [''a''])) WorkflowInvocationStatus_IN_PROGRESS Map.empty) ''a'', False)])
   \<and> Eval ((sample_Engine True)\<lparr>scheduler_Evaluate := (\<lambda>i scheduled.
          Inl (if ''a'' \<in> scheduled then ''a is in the scheduled set'' else ''a is not in the scheduled set''))\<rparr>)
       201000000000
       (sample_Event (EntityInvocation (sample_Invocation (Some (sample_Workflow [''a''])) WorkflowInvocationStatus_IN_PROGRESS Map.empty)))
       (\<lparr>invocationID = ''inv'', startedTasks = {}, sheduledTasks = {''a''}, errorCount = 0\<rparr>,
        [(runTask (sample_Invocation (Some (sample_Workflow [''a''])) WorkflowInvocationStatus_IN_PROGRESS Map.empty) ''a'', False)])
     = (Err ''a is in the scheduled set'',
        \<lparr>invocationID = ''inv'', startedTasks = {}, sheduledTasks = {''a''}, errorCount = 0\<rparr>,
        [(runTask (sample_Invocation (Some (sample_Workflow [''a''])) WorkflowInvocationStatus_IN_PROGRESS Map.empty) ''a'', False)])
   \<and> Eval (sample_Engine True) 201000000000
       (sample_Event (EntityInvocation (sample_Invocation (Some (sample_Workflow [''a''])) WorkflowInvocationStatus_IN_PROGRESS Map.empty)))
       (\<lparr>invocationID = ''inv'', startedTasks = {}, sheduledTasks = {''a''}, errorCount = 0\<rparr>,
        [(runTask (sample_Invocation (Some (sample_Workflow [''a''])) WorkflowInvocationStatus_IN_PROGRESS Map.empty) ''a'', False)])
     = (Success ''scheduled execution of 0 tasks and preparation of 0 tasks'',
        \<lparr>invocationID = ''inv'', startedTasks = {}, sheduledTasks = {''a''}, errorCount = 0\<rparr>,
        [(runTask (sample_Invocation (Some (sample_Workflow [''a''])) WorkflowInvocationStatus_IN_PROGRESS Map.empty) ''a'', False)])"
proof -
  let ?wi = "sample_Invocation (Some (sample_Workflow [''a''])) WorkflowInvocationStatus_IN_PROGRESS Map.empty"
  let ?probe = "(sample_Engine True)\<lparr>scheduler_Evaluate := (\<lambda>i scheduled.
          Inl (if ''a'' \<in> scheduled then ''a is in the scheduled set'' else ''a is not in the scheduled set''))\<rparr>"
  let ?c1 = "\<lparr>invocationID = ''inv'', startedTasks = {}, sheduledTasks = {''a''}, errorCount = 0\<rparr>"
  have tasks: "Tasks ?wi = [''a'']"
    by (simp add: Tasks_def sample_Workflow_of sample_Workflow_def)
  have nf: "\<not> allTasksFinished ?wi"
    by (simp add: allTasksFinished_def tasks) (simp add: sample_Invocation_def)
  have s1: "scheduler_Evaluate (sample_Engine False) ?wi {} =
      Inr \<lparr>Abort = None, RunTasks = [\<lparr>rta_TaskID = ''a''\<rparr>], PrepareTasks = []\<rparr>"
    by (simp add: sample_Engine_def sample_Evaluate_def tasks) (simp add: sample_Invocation_def)
  have s2: "scheduler_Evaluate (sample_Engine True) ?wi {''a''} =
      Inr \<lparr>Abort = None, RunTasks = [], PrepareTasks = []\<rparr>"
    by (simp add: sample_Engine_def sample_Evaluate_def tasks)
  have s3: "scheduler_Evaluate ?probe ?wi {''a''} = Inl ''a is in the scheduled set''"
    by simp
  have rej: "\<And>ex t. executor_Accepts (sample_Engine False) ex t = False"
    by (simp add: sample_Engine_def)
  have first: "evalTasks (sample_Engine False) ?wi (NewInvocationController ''inv'', [])
     = (Success ''scheduled execution of 1 tasks and preparation of 0 tasks'', ?c1, [(runTask ?wi ''a'', False)])"
    by (simp add: evalTasks_def nf s1 Let_def Submit_def rej NewInvocationController_def Itoa.simps)
  have probe: "\<And>ex. evalTasks ?probe ?wi (?c1, ex) = (Err ''a is in the scheduled set'', ?c1, ex)"
    by (simp add: evalTasks_def nf Let_def)
  have second: "\<And>ex. evalTasks (sample_Engine True) ?wi (?c1, ex)
     = (Success ''scheduled execution of 0 tasks and preparation of 0 tasks'', ?c1, ex)"
    by (simp add: evalTasks_def nf s2 Let_def Itoa.simps)
  have e1: "Eval (sample_Engine False) 200000000000 (sample_Event (EntityInvocation ?wi)) (NewInvocationController ''inv'', [])
     = evalTasks (sample_Engine False) ?wi (NewInvocationController ''inv'', [])"
    by (simp add: Eval_def Let_def sample_Updated sample_ID sample_Workflow_of sample_Status
        sample_Deadline Time_After_def NewInvocationController_def)
  have e2: "\<And>E ex. Eval E 201000000000 (sample_Event (EntityInvocation ?wi)) (?c1, ex) = evalTasks E ?wi (?c1, ex)"
    by (simp add: Eval_def Let_def sample_Updated sample_ID sample_Workflow_of sample_Status
        sample_Deadline Time_After_def)
  show ?thesis
    by (simp only: e1 e2 first second probe simp_thms)
qed





end
